theory Spec2Isabelle
  imports Complex_Main
begin

section \<open>Flutter environment setup: a model of \<open>setup_flutter.py\<close>\<close>

text \<open>
  The script is a linear pipeline of calls into the operating system, the network and
  the Python standard library. The model makes every such call explicit: what the
  environment answers is a field of the record \<open>world\<close>, what the script does to the
  environment is an \<open>event\<close> of the run's trace and a change of the file system
  state \<open>fs\<close>, and every exception is a value of type \<open>exn\<close>.

  Python strings are modelled by \<open>string\<close>; a character stands for a code point
  below 256. Colour escape sequences and emoji of the console output are left out of
  the printed texts.
\<close>

subsection \<open>Exceptions\<close>

text \<open>
  The classes below \<open>Exception\<close> that the script can meet. \<open>OSError\<close> stands for
  the whole \<open>OSError\<close> family except \<open>FileNotFoundError\<close>, which the version probe
  names; \<open>LibError\<close> is any other exception raised inside a library call.
\<close>

datatype exn =
    KeyError string
  | TypeError
  | ZeroDivisionError
  | OverflowError
  | Exception string
  | OSError string
  | FileNotFoundError
  | CalledProcessError int
  | LibError string

subsection \<open>Parsed JSON values\<close>

text \<open>
  The values \<open>json.loads\<close> returns. A float is given by its exact value; a dict is
  an association list in which the first binding of a key counts.
\<close>

datatype pyfloat = Finite rat | PosInf | NegInf | NaN

datatype json =
    JNull
  | JBool bool
  | JInt int
  | JFloat pyfloat
  | JStr string
  | JList "json list"
  | JDict "(string \<times> json) list"

fun num_eq :: "pyfloat \<Rightarrow> pyfloat \<Rightarrow> bool" where
  "num_eq (Finite a) (Finite b) = (a = b)"
| "num_eq PosInf PosInf = True"
| "num_eq NegInf NegInf = True"
| "num_eq _ _ = False"

fun as_number :: "json \<Rightarrow> pyfloat option" where
  "as_number (JBool b) = Some (Finite (if b then 1 else 0))"
| "as_number (JInt i) = Some (Finite (of_int i))"
| "as_number (JFloat f) = Some f"
| "as_number _ = None"

text \<open>
  Python's \<open>==\<close> on parsed JSON values. Booleans, ints and floats compare by value
  (\<open>True == 1\<close>, \<open>1 == 1.0\<close>). Inside a list or a dict the comparison of two elements
  first tests identity (flag \<open>ident\<close>), which matters for the one \<open>NaN\<close> object of
  the \<open>json\<close> module only.
\<close>

fun rich_eq :: "bool \<Rightarrow> json \<Rightarrow> json \<Rightarrow> bool"
  and rich_eq_list :: "json list \<Rightarrow> json list \<Rightarrow> bool"
  and dict_le :: "string list \<Rightarrow> (string \<times> json) list \<Rightarrow> (string \<times> json) list \<Rightarrow> bool"
where
  "rich_eq ident (JList xs) b = (case b of JList ys \<Rightarrow> rich_eq_list xs ys | _ \<Rightarrow> False)"
| "rich_eq ident (JDict kvs) b =
     (case b of
        JDict kvs' \<Rightarrow> set (map fst kvs') \<subseteq> set (map fst kvs) \<and> dict_le [] kvs kvs'
      | _ \<Rightarrow> False)"
| "rich_eq ident (JStr s) b = (case b of JStr t \<Rightarrow> s = t | _ \<Rightarrow> False)"
| "rich_eq ident JNull b = (case b of JNull \<Rightarrow> True | _ \<Rightarrow> False)"
| "rich_eq ident a b =
     (case (as_number a, as_number b) of
        (Some x, Some y) \<Rightarrow> num_eq x y \<or> (ident \<and> a = JFloat NaN \<and> b = JFloat NaN)
      | _ \<Rightarrow> False)"
| "rich_eq_list [] ys = (ys = [])"
| "rich_eq_list (x # xs) ys =
     (case ys of [] \<Rightarrow> False | y # ys' \<Rightarrow> rich_eq True x y \<and> rich_eq_list xs ys')"
| "dict_le seen [] kvs' = True"
| "dict_le seen ((k, v) # kvs) kvs' =
     ((k \<in> set seen \<or> (case map_of kvs' k of None \<Rightarrow> False | Some v' \<Rightarrow> rich_eq True v v'))
      \<and> dict_le (k # seen) kvs kvs')"

definition py_eq :: "json \<Rightarrow> json \<Rightarrow> bool" where
  "py_eq a b = rich_eq False a b"

text \<open>Truth value of a parsed JSON value (\<open>if not release\<close>).\<close>

fun truthy :: "json \<Rightarrow> bool" where
  "truthy JNull = False"
| "truthy (JBool b) = b"
| "truthy (JInt i) = (i \<noteq> 0)"
| "truthy (JFloat f) = (f \<noteq> Finite 0)"
| "truthy (JStr s) = (s \<noteq> [])"
| "truthy (JList xs) = (xs \<noteq> [])"
| "truthy (JDict kvs) = (kvs \<noteq> [])"

text \<open>\<open>v[key]\<close> with a string key: only a dict can be subscripted that way.\<close>

fun getitem :: "json \<Rightarrow> string \<Rightarrow> exn + json" where
  "getitem (JDict kvs) key = (case map_of kvs key of None \<Rightarrow> Inl (KeyError key) | Some v \<Rightarrow> Inr v)"
| "getitem _ key = Inl TypeError"

text \<open>
  \<open>for item in v\<close>: a list yields its elements, a dict its keys, a string its
  characters; nothing else can be iterated.
\<close>

fun py_iter :: "json \<Rightarrow> exn + json list" where
  "py_iter (JList xs) = Inr xs"
| "py_iter (JDict kvs) = Inr (map JStr (remdups (map fst kvs)))"
| "py_iter (JStr s) = Inr (map (\<lambda>c. JStr [c]) s)"
| "py_iter _ = Inl TypeError"

text \<open>
  A value interpolated in an f-string: a string stands for itself, any other value is
  rendered by Python's \<open>format\<close>, which the model takes from the environment.
\<close>

fun py_format :: "(json \<Rightarrow> string) \<Rightarrow> json \<Rightarrow> string" where
  "py_format render (JStr s) = s"
| "py_format render v = render v"

subsection \<open>Configuration\<close>

definition BASE_URL :: string where
  "BASE_URL = ''https://storage.googleapis.com/flutter_infra_release/releases''"

text \<open>
  \<open>PATHS\<close>; the parameter is the value of \<open>os.path.expanduser("~/development/flutter")\<close>.
\<close>

definition PATHS :: "string \<Rightarrow> string \<rightharpoonup> string" where
  "PATHS home_flutter =
     [''Windows'' \<mapsto> ''C:'' @ [CHR 0x5C] @ ''flutter'',
      ''Darwin'' \<mapsto> home_flutter,
      ''Linux'' \<mapsto> home_flutter]"

definition METADATA_URLS :: "string \<rightharpoonup> string" where
  "METADATA_URLS =
     [''Windows'' \<mapsto> ''https://storage.googleapis.com/flutter_infra_release/releases/releases_windows.json'',
      ''Darwin'' \<mapsto> ''https://storage.googleapis.com/flutter_infra_release/releases/releases_macos.json'',
      ''Linux'' \<mapsto> ''https://storage.googleapis.com/flutter_infra_release/releases/releases_linux.json'']"

subsection \<open>Console output\<close>

text \<open>
  One constructor for each printing helper. \<open>PrintErrorExn t e\<close> is
  \<open>print_error(f"t{e}")\<close>: the text of an exception is not modelled. \<open>ProgressBar\<close>
  carries the prefix, the bar, the percentage before it is formatted to one decimal,
  and the suffix.
\<close>

datatype line =
    Print string
  | PrintStep string
  | PrintSuccess string
  | PrintWarning string
  | PrintError string
  | PrintErrorExn string exn
  | ProgressBar string string rat string
  | Newline

text \<open>
  Whether converting an integer to a float raises \<open>OverflowError\<close>: the integers
  that round to a double are those below \<open>2^1024 - 2^970\<close> in absolute value.
\<close>

definition float_overflow :: "int \<Rightarrow> bool" where
  "float_overflow n = (\<bar>n\<bar> \<ge> 2 ^ 1024 - 2 ^ 970)"

text \<open>
  \<open>draw_progress_bar(current, total, prefix, suffix, length)\<close>, with \<open>tot\<close> for
  \<open>total\<close>. In \<open>current / float(total)\<close> the conversion of \<open>total\<close> and then
  that of \<open>current\<close> may overflow, and the division raises for \<open>total = 0\<close>. The
  percentage is the exact quotient: floating-point rounding is not modelled. \<open>//\<close> is
  floor division, as \<open>div\<close> is on \<open>int\<close>; a string repeated a negative number of
  times is empty. The fill character is written \<open>#\<close>.
\<close>

definition percent :: "int \<Rightarrow> int \<Rightarrow> rat" where
  "percent current tot = 100 * (of_int current / of_int tot)"

definition draw_progress_bar :: "int \<Rightarrow> int \<Rightarrow> string \<Rightarrow> string \<Rightarrow> int \<Rightarrow> exn + line list" where
  "draw_progress_bar current tot prefix suffix len =
     (if float_overflow tot \<or> float_overflow current then Inl OverflowError
      else if tot = 0 then Inl ZeroDivisionError
      else
        let filled_length = len * current div tot;
            bar = replicate (nat filled_length) (CHR ''#'')
                  @ replicate (nat (len - filled_length)) (CHR ''-'')
        in Inr (ProgressBar prefix bar (percent current tot) suffix
                # (if current = tot then [Newline] else [])))"

subsection \<open>The release resolver\<close>

text \<open>
  \<open>next((item for item in items if item['hash'] == current_hash), None)\<close>: the items
  are visited in order, subscripting an item may raise, and the first item whose hash
  equals \<open>current_hash\<close> is returned.
\<close>

fun find_release :: "json list \<Rightarrow> json \<Rightarrow> exn + json option" where
  "find_release [] current_hash = Inr None"
| "find_release (item # rest) current_hash =
     (case getitem item ''hash'' of
        Inl e \<Rightarrow> Inl e
      | Inr h \<Rightarrow> if py_eq h current_hash then Inr (Some item) else find_release rest current_hash)"

text \<open>
  The body of the first \<open>try\<close> block once the document is parsed: it yields
  \<open>(latest_version, download_url)\<close> or the exception that reaches the \<open>except\<close> clause.
\<close>

definition resolve_release :: "(json \<Rightarrow> string) \<Rightarrow> json \<Rightarrow> exn + (json \<times> string)" where
  "resolve_release render data =
     (case getitem data ''current_release'' of
        Inl e \<Rightarrow> Inl e
      | Inr current_release \<Rightarrow>
     (case getitem current_release ''stable'' of
        Inl e \<Rightarrow> Inl e
      | Inr current_hash \<Rightarrow>
     (case getitem data ''releases'' of
        Inl e \<Rightarrow> Inl e
      | Inr releases \<Rightarrow>
     (case py_iter releases of
        Inl e \<Rightarrow> Inl e
      | Inr items \<Rightarrow>
     (case find_release items current_hash of
        Inl e \<Rightarrow> Inl e
      | Inr None \<Rightarrow> Inl (Exception ''Could not match hash to release.'')
      | Inr (Some release) \<Rightarrow>
          if \<not> truthy release then Inl (Exception ''Could not match hash to release.'')
          else
     (case getitem release ''archive'' of
        Inl e \<Rightarrow> Inl e
      | Inr archive_path \<Rightarrow>
     (case getitem release ''version'' of
        Inl e \<Rightarrow> Inl e
      | Inr latest_version \<Rightarrow>
          Inr (latest_version, BASE_URL @ ''/'' @ py_format render archive_path))))))))"

subsection \<open>The local version probe\<close>

text \<open>
  What \<open>subprocess.run(["flutter", "--version"], ...)\<close> meets: the executable is
  missing, the process ends with a return code and its standard output, or something
  else goes wrong. With \<open>check=True\<close> a return code other than 0 raises.
\<close>

datatype proc = NotFound | Exited int string | Failed exn

fun subprocess_run :: "proc \<Rightarrow> exn + string" where
  "subprocess_run NotFound = Inl FileNotFoundError"
| "subprocess_run (Exited returncode stdout) =
     (if returncode \<noteq> 0 then Inl (CalledProcessError returncode) else Inr stdout)"
| "subprocess_run (Failed e) = Inl e"

text \<open>The classes \<open>\d\<close> and \<open>\s\<close> of a \<open>str\<close> pattern, for code points below 256.\<close>

definition is_digit :: "char \<Rightarrow> bool" where
  "is_digit c = (c \<in> set ''0123456789'')"

definition is_space :: "char \<Rightarrow> bool" where
  "is_space c =
     (c \<in> set [CHR 0x09, CHR 0x0A, CHR 0x0B, CHR 0x0C, CHR 0x0D, CHR 0x1C, CHR 0x1D,
                CHR 0x1E, CHR 0x1F, CHR 0x20, CHR 0x85, CHR 0xA0])"

fun strip_prefix :: "string \<Rightarrow> string \<Rightarrow> string option" where
  "strip_prefix [] s = Some s"
| "strip_prefix (p # ps) [] = None"
| "strip_prefix (p # ps) (c # cs) = (if p = c then strip_prefix ps cs else None)"

text \<open>
  \<open>\d+\<close> at the head of a string: the digits and the rest. The quantifier is greedy,
  and giving a digit back never helps, since what follows \<open>\d+\<close> in the pattern is a
  dot or the end of the pattern.
\<close>

definition digits1 :: "string \<Rightarrow> (string \<times> string) option" where
  "digits1 s =
     (if takeWhile is_digit s = [] then None
      else Some (takeWhile is_digit s, dropWhile is_digit s))"

definition dot :: "string \<Rightarrow> string option" where
  "dot s = (case s of c # cs \<Rightarrow> if c = CHR ''.'' then Some cs else None | [] \<Rightarrow> None)"

text \<open>
  The pattern \<open>Flutter\s+(\d+\.\d+\.\d+)\<close> matched at the head of a string; the result
  is group 1.
\<close>

definition match_here :: "string \<Rightarrow> string option" where
  "match_here s =
     (case strip_prefix ''Flutter'' s of
        None \<Rightarrow> None
      | Some r \<Rightarrow>
          if takeWhile is_space r = [] then None
          else
     (case digits1 (dropWhile is_space r) of
        None \<Rightarrow> None
      | Some (major, r1) \<Rightarrow>
     (case dot r1 of
        None \<Rightarrow> None
      | Some r2 \<Rightarrow>
     (case digits1 r2 of
        None \<Rightarrow> None
      | Some (minor, r3) \<Rightarrow>
     (case dot r3 of
        None \<Rightarrow> None
      | Some r4 \<Rightarrow>
     (case digits1 r4 of
        None \<Rightarrow> None
      | Some (patch, r5) \<Rightarrow> Some (major @ ''.'' @ minor @ ''.'' @ patch)))))))"

text \<open>\<open>re.search\<close>: the match at the leftmost position where the pattern matches.\<close>

fun re_search :: "string \<Rightarrow> string option" where
  "re_search [] = match_here []"
| "re_search (c # cs) =
     (case match_here (c # cs) of Some v \<Rightarrow> Some v | None \<Rightarrow> re_search cs)"

text \<open>
  \<open>get_installed_version\<close>, from the outcome of the subprocess. The three \<open>except\<close>
  clauses are tried in the order of the source.
\<close>

definition get_installed_version :: "proc \<Rightarrow> string option" where
  "get_installed_version p =
     (case subprocess_run p of
        Inr stdout \<Rightarrow> (case re_search stdout of Some v \<Rightarrow> Some v | None \<Rightarrow> None)
      | Inl FileNotFoundError \<Rightarrow> None
      | Inl (CalledProcessError rc) \<Rightarrow> None
      | Inl e \<Rightarrow> None)"

subsection \<open>Strings and paths\<close>

definition starts_with :: "string \<Rightarrow> string \<Rightarrow> bool" where
  "starts_with s p = (strip_prefix p s \<noteq> None)"

definition ends_with :: "string \<Rightarrow> string \<Rightarrow> bool" where
  "ends_with s p = starts_with (rev s) (rev p)"

text \<open>\<open>needle in hay\<close> on strings.\<close>

fun contains :: "string \<Rightarrow> string \<Rightarrow> bool" where
  "contains needle [] = (needle = [])"
| "contains needle (c # cs) = (starts_with (c # cs) needle \<or> contains needle cs)"

text \<open>\<open>str.lower\<close> for code points below 256.\<close>

definition lower_char :: "char \<Rightarrow> char" where
  "lower_char c =
     (let n = (of_char c :: nat)
      in if (65 \<le> n \<and> n \<le> 90) \<or> (192 \<le> n \<and> n \<le> 222 \<and> n \<noteq> 215)
         then char_of (n + 32) else c)"

definition lower :: "string \<Rightarrow> string" where
  "lower s = map lower_char s"

definition bslash :: char where
  "bslash = CHR 0x5C"

definition is_sep :: "char \<Rightarrow> bool" where
  "is_sep c = (c = bslash \<or> c = CHR ''/'')"

text \<open>\<open>posixpath.dirname\<close> and \<open>posixpath.join\<close> (of two components).\<close>

definition posix_dirname :: "string \<Rightarrow> string" where
  "posix_dirname p =
     (let head = rev (dropWhile (\<lambda>c. c \<noteq> CHR ''/'') (rev p))
      in if head \<noteq> [] \<and> head \<noteq> replicate (length head) (CHR ''/'')
         then rev (dropWhile (\<lambda>c. c = CHR ''/'') (rev head)) else head)"

definition posix_join :: "string \<Rightarrow> string \<Rightarrow> string" where
  "posix_join a b =
     (if starts_with b ''/'' then b
      else if a = [] \<or> ends_with a ''/'' then a @ b
      else a @ ''/'' @ b)"

text \<open>
  \<open>ntpath.dirname\<close> and \<open>ntpath.join\<close>, for a path that is a drive letter with a
  colon followed by components (as \<open>C:\flutter\<close>, the only Windows path of the script),
  and for joining a plain name.
\<close>

definition nt_dirname :: "string \<Rightarrow> string" where
  "nt_dirname p =
     (let drive = (if length p \<ge> 2 \<and> p ! 1 = CHR '':'' then take 2 p else []);
          rest = drop (length drive) p;
          head = rev (dropWhile (\<lambda>c. \<not> is_sep c) (rev rest));
          stripped = rev (dropWhile is_sep (rev head))
      in drive @ (if stripped = [] then head else stripped))"

definition nt_join :: "string \<Rightarrow> string \<Rightarrow> string" where
  "nt_join a b =
     (let drive = (if length a \<ge> 2 \<and> a ! 1 = CHR '':'' then take 2 a else []);
          rest = drop (length drive) a
      in if rest = [] \<or> is_sep (last rest) then a @ b else a @ [bslash] @ b)"

text \<open>\<open>os.path\<close> is \<open>ntpath\<close> on Windows and \<open>posixpath\<close> on the other two systems.\<close>

definition dirname :: "string \<Rightarrow> string \<Rightarrow> string" where
  "dirname current_os p = (if current_os = ''Windows'' then nt_dirname p else posix_dirname p)"

definition path_join :: "string \<Rightarrow> string \<Rightarrow> string \<Rightarrow> string" where
  "path_join current_os a b = (if current_os = ''Windows'' then nt_join a b else posix_join a b)"

subsection \<open>The file system and the trace of a run\<close>

text \<open>
  What is at the installation path is a tree of files and directories. Each object has
  two attributes. It is \<open>readonly\<close> when \<open>os.access(path, os.W_OK)\<close> is false;
  \<open>os.chmod(path, stat.S_IWRITE)\<close> clears that. It is \<open>locked\<close> when it cannot be
  deleted for a reason that clearing \<open>readonly\<close> does not remove, such as a file held
  open by another process.
\<close>

record attrs =
  readonly :: bool
  locked :: bool

datatype node = File attrs | Dir attrs "(string \<times> node) list"

record fs =
  install :: "node option"
  parent :: bool
  extracted :: "string list"
  cwd_files :: "string set"

datatype archive_kind = Zip | TarXz

datatype event =
    Out line
  | Urlopen string
  | RunFlutterVersion
  | Urlretrieve string string
  | Scandir string
  | Unlink string
  | Rmdir string
  | Chmod string
  | Makedirs string
  | Extract archive_kind string string
  | Remove string

text \<open>
  The model of \<open>shutil.rmtree\<close> is about deletions that fail: every directory of
  the tree can be listed, and \<open>os.chmod\<close> succeeds. The three functions that
  \<open>rmtree\<close> hands to its error handler are then \<open>os.unlink\<close> and \<open>os.rmdir\<close>,
  which succeed on an object that is not locked and, where the platform refuses to
  delete read-only objects (\<open>ro_blocks\<close>, as Windows does), not read-only, and
  \<open>os.scandir\<close>, handed over when the path given to \<open>rmtree\<close> is not a directory,
  where it fails.
\<close>

datatype fsop = OsScandir | OsUnlink | OsRmdir

fun call_event :: "fsop \<Rightarrow> string \<Rightarrow> event" where
  "call_event OsScandir path = Scandir path"
| "call_event OsUnlink path = Unlink path"
| "call_event OsRmdir path = Rmdir path"

fun func_ok :: "bool \<Rightarrow> fsop \<Rightarrow> attrs \<Rightarrow> bool" where
  "func_ok ro_blocks OsScandir a = False"
| "func_ok ro_blocks func a = (\<not> locked a \<and> \<not> (ro_blocks \<and> readonly a))"

text \<open>
  \<open>on_rm_error(func, path, exc_info)\<close>, called while \<open>rmtree\<close> handles the
  \<open>OSError\<close> of a failed \<open>func(path)\<close>. The result is the events, and \<open>None\<close> when the
  handler returns (the retry has removed the object) or the exception it raises and the
  attributes the object is left with. The bare \<open>raise\<close> raises the \<open>OSError\<close> being
  handled again.
\<close>

definition on_rm_error :: "bool \<Rightarrow> fsop \<Rightarrow> string \<Rightarrow> attrs \<Rightarrow> event list \<times> (exn \<times> attrs) option" where
  "on_rm_error ro_blocks func path a =
     (if readonly a then
        let a' = a\<lparr>readonly := False\<rparr>
        in ([Chmod path, call_event func path],
            if func_ok ro_blocks func a' then None else Some (OSError path, a'))
      else ([], Some (OSError path, a)))"

text \<open>\<open>try: func(path) except OSError: onerror(func, path, sys.exc_info())\<close>.\<close>

definition try_remove :: "bool \<Rightarrow> fsop \<Rightarrow> string \<Rightarrow> attrs \<Rightarrow> event list \<times> (exn \<times> attrs) option" where
  "try_remove ro_blocks func path a =
     (if func_ok ro_blocks func a then ([call_event func path], None)
      else (case on_rm_error ro_blocks func path a of
              (evs, r) \<Rightarrow> (call_event func path # evs, r)))"

text \<open>
  \<open>shutil.rmtree(path, onerror=on_rm_error)\<close>: the entries of a directory are removed
  in order, then the directory itself. The result is \<open>None\<close> when everything is
  removed, or the exception that leaves \<open>rmtree\<close> and what remains of the tree.
\<close>

fun rm_node :: "bool \<Rightarrow> string \<Rightarrow> string \<Rightarrow> node \<Rightarrow> event list \<times> (exn \<times> node) option"
  and rm_entries :: "bool \<Rightarrow> string \<Rightarrow> string \<Rightarrow> (string \<times> node) list
                       \<Rightarrow> event list \<times> (exn \<times> (string \<times> node) list) option"
where
  "rm_node ro_blocks current_os path (File a) =
     (case try_remove ro_blocks OsUnlink path a of
        (evs, None) \<Rightarrow> (evs, None)
      | (evs, Some (e, a')) \<Rightarrow> (evs, Some (e, File a')))"
| "rm_node ro_blocks current_os path (Dir a entries) =
     (case rm_entries ro_blocks current_os path entries of
        (evs, Some (e, rest)) \<Rightarrow> (evs, Some (e, Dir a rest))
      | (evs, None) \<Rightarrow>
          (case try_remove ro_blocks OsRmdir path a of
             (evs', None) \<Rightarrow> (evs @ evs', None)
           | (evs', Some (e, a')) \<Rightarrow> (evs @ evs', Some (e, Dir a' []))))"
| "rm_entries ro_blocks current_os path [] = ([], None)"
| "rm_entries ro_blocks current_os path ((name, n) # es) =
     (case rm_node ro_blocks current_os (path_join current_os path name) n of
        (evs, Some (e, n')) \<Rightarrow> (evs, Some (e, (name, n') # es))
      | (evs, None) \<Rightarrow>
          (case rm_entries ro_blocks current_os path es of
             (evs', r) \<Rightarrow> (evs @ evs', r)))"

definition rmtree :: "bool \<Rightarrow> string \<Rightarrow> string \<Rightarrow> node \<Rightarrow> event list \<times> (exn \<times> node) option" where
  "rmtree ro_blocks current_os path n =
     (case n of
        Dir a entries \<Rightarrow> rm_node ro_blocks current_os path n
      | File a \<Rightarrow>
          (case try_remove ro_blocks OsScandir path a of
             (evs, None) \<Rightarrow> (evs, None)
           | (evs, Some (e, a')) \<Rightarrow> (evs, Some (e, File a'))))"

subsection \<open>The download\<close>

definition download_reporthook :: "int \<Rightarrow> int \<Rightarrow> int \<Rightarrow> exn + line list" where
  "download_reporthook block_num block_size total_size =
     (let downloaded = block_num * block_size
      in if downloaded < total_size
         then draw_progress_bar downloaded total_size ''Downloading:'' [] 30
         else draw_progress_bar total_size total_size ''Downloading:'' ''Complete'' 30)"

text \<open>
  What \<open>urllib.request.urlretrieve\<close> meets at a URL. \<open>Refused e\<close>: opening the URL or
  the local file raises \<open>e\<close>, and no file is written. \<open>Response total_size n err\<close>: the
  \<open>Content-Length\<close> is \<open>total_size\<close> (\<open>-1\<close> when the header is missing), \<open>n\<close> bytes
  arrive in blocks of 8192 bytes (the last one may be shorter), and then the stream ends
  (\<open>err = None\<close>) or reading raises.
\<close>

datatype download = Refused exn | Response int nat "exn option"

definition bs :: nat where
  "bs = 1024 * 8"

text \<open>The calls \<open>reporthook(blocknum, bs, size)\<close> for the given block numbers, in order.\<close>

fun run_hooks :: "nat list \<Rightarrow> int \<Rightarrow> line list \<times> exn option" where
  "run_hooks [] total_size = ([], None)"
| "run_hooks (blocknum # ks) total_size =
     (case download_reporthook (int blocknum) (int bs) total_size of
        Inl e \<Rightarrow> ([], Some e)
      | Inr ls \<Rightarrow> (case run_hooks ks total_size of (ls', r) \<Rightarrow> (ls @ ls', r)))"

text \<open>
  \<open>urlretrieve(url, filename, download_reporthook)\<close>: the hook is called once before
  the first read and once after every block; a download shorter than its
  \<open>Content-Length\<close> raises at the end. The result tells whether the file was created,
  what the hook printed, and the exception raised, if any.
\<close>

fun urlretrieve :: "download \<Rightarrow> bool \<times> line list \<times> exn option" where
  "urlretrieve (Refused e) = (False, [], Some e)"
| "urlretrieve (Response total_size n err) =
     (case run_hooks [0 ..< Suc ((n + bs - 1) div bs)] total_size of
        (ls, Some e) \<Rightarrow> (True, ls, Some e)
      | (ls, None) \<Rightarrow>
          (True, ls,
           case err of
             Some e \<Rightarrow> Some e
           | None \<Rightarrow>
               if total_size \<ge> 0 \<and> int n < total_size
               then Some (OSError ''ContentTooShortError'') else None))"

subsection \<open>The extraction\<close>

text \<open>
  The loop over the members of the archive, from index \<open>i\<close> on. A member is its name
  and the exception its extraction raises, if any. The result is the events, the names
  extracted and the exception that ends the loop, if any.
\<close>

fun extract_members :: "archive_kind \<Rightarrow> string \<Rightarrow> nat \<Rightarrow> nat \<Rightarrow> (string \<times> exn option) list
                          \<Rightarrow> event list \<times> string list \<times> exn option" where
  "extract_members kind parent_dir i total_files [] = ([], [], None)"
| "extract_members kind parent_dir i total_files ((name, err) # rest) =
     (case err of
        Some e \<Rightarrow> ([Extract kind name parent_dir], [], Some e)
      | None \<Rightarrow>
          (case (if i mod 100 = 0 \<or> int i = int total_files - 1
                 then draw_progress_bar (int i + 1) (int total_files) ''Extracting: '' [] 30
                 else Inr []) of
             Inl e \<Rightarrow> ([Extract kind name parent_dir], [name], Some e)
           | Inr ls \<Rightarrow>
               (case extract_members kind parent_dir (Suc i) total_files rest of
                  (evs, names, r) \<Rightarrow>
                    (Extract kind name parent_dir # map Out ls @ evs, name # names, r))))"

subsection \<open>The PATH advisor\<close>

definition rule_line :: string where
  "rule_line = ''========================================''"

text \<open>Lines 247 to 268; \<open>env_path\<close> is \<open>os.environ.get('PATH')\<close>.\<close>

definition path_advisor :: "string \<Rightarrow> string \<Rightarrow> string option \<Rightarrow> line list" where
  "path_advisor current_os install_path env_path =
     (let bin_path = path_join current_os install_path ''bin''
      in [PrintStep ''Final Configuration'']
         @ (if current_os = ''Windows'' then
              let user_path = (case env_path of None \<Rightarrow> [] | Some v \<Rightarrow> v)
              in if contains (lower bin_path) (lower user_path)
                 then [PrintSuccess ''Flutter is already in your PATH.'']
                 else [PrintWarning ''Action Required: Update your PATH.'',
                       Print ''Run this in PowerShell (Admin) to finish:'',
                       Print (''  [Environment]::SetEnvironmentVariable('Path', $env:Path + ';''
                              @ bin_path @ ''', 'User')'')]
            else [PrintSuccess ''Installation done.'',
                  Print (''Add this to your .zshrc/.bashrc: export PATH='' @ [CHR 0x22] @ ''$PATH:''
                         @ bin_path @ [CHR 0x22])])
         @ [Print rule_line,
            Print ''   READY TO CODE! '',
            Print ''   Run 'flutter doctor' to verify setup.'',
            Print rule_line])"

subsection \<open>The environment and the run\<close>

text \<open>
  Everything the script reads from outside:
  \<^item> \<open>platform_system\<close>: \<open>platform.system()\<close>;
  \<^item> \<open>expanduser_flutter\<close>: \<open>os.path.expanduser("~/development/flutter")\<close>;
  \<^item> \<open>py_render\<close>: \<open>format\<close> of a JSON value that is not a string;
  \<^item> \<open>urlopen_json\<close>: for a URL, the document \<open>json.loads\<close> returns, or the exception
    raised while opening, reading, decoding or parsing;
  \<^item> \<open>flutter_proc\<close>: what running \<open>flutter --version\<close> meets;
  \<^item> \<open>remote\<close>: for a URL, what \<open>urlretrieve\<close> meets;
  \<^item> \<open>ro_blocks_delete\<close>: whether the platform refuses to delete read-only objects;
  \<^item> \<open>makedirs_error\<close>: the exception \<open>os.makedirs\<close> raises, if any;
  \<^item> \<open>open_archive\<close>: for a file name, the members of the archive, or the exception
    raised while opening it or listing its members;
  \<^item> \<open>remove_error\<close>: the exception \<open>os.remove\<close> raises, if any;
  \<^item> \<open>environ_PATH\<close>: \<open>os.environ.get('PATH')\<close>;
  \<^item> \<open>fs0\<close>: the file system before the run.
\<close>

record world =
  platform_system :: string
  expanduser_flutter :: string
  py_render :: "json \<Rightarrow> string"
  urlopen_json :: "string \<Rightarrow> exn + json"
  flutter_proc :: proc
  remote :: "string \<Rightarrow> download"
  ro_blocks_delete :: bool
  makedirs_error :: "exn option"
  open_archive :: "archive_kind \<Rightarrow> string \<Rightarrow> exn + (string \<times> exn option) list"
  remove_error :: "exn option"
  environ_PATH :: "string option"
  fs0 :: fs

text \<open>
  A run: its events in order, the file system it leaves, and the exception that no
  handler caught, if any.
\<close>

record run =
  trace :: "event list"
  final_fs :: fs
  uncaught :: "exn option"

definition finish :: "event list \<Rightarrow> fs \<Rightarrow> run" where
  "finish evs s = \<lparr>trace = evs, final_fs = s, uncaught = None\<rparr>"

definition crash :: "event list \<Rightarrow> fs \<Rightarrow> exn \<Rightarrow> run" where
  "crash evs s e = \<lparr>trace = evs, final_fs = s, uncaught = Some e\<rparr>"

definition after :: "event list \<Rightarrow> run \<Rightarrow> run" where
  "after evs r = r\<lparr>trace := evs @ trace r\<rparr>"

definition is_OSError :: "exn \<Rightarrow> bool" where
  "is_OSError e = (case e of OSError m \<Rightarrow> True | FileNotFoundError \<Rightarrow> True | _ \<Rightarrow> False)"

text \<open>
  The \<open>finally\<close> clause, lines 239 to 244: the archive is removed if it exists, and
  whatever \<open>os.remove\<close> raises is dropped.
\<close>

definition cleanup :: "world \<Rightarrow> string \<Rightarrow> fs \<Rightarrow> event list \<times> fs" where
  "cleanup w filename s =
     (if filename \<in> cwd_files s then
        (case remove_error w of
           None \<Rightarrow> ([Remove filename], s\<lparr>cwd_files := cwd_files s - {filename}\<rparr>)
         | Some e \<Rightarrow> ([Remove filename], s))
      else ([], s))"

text \<open>The body of the \<open>try\<close> block, lines 216 to 235.\<close>

definition extraction :: "world \<Rightarrow> string \<Rightarrow> string \<Rightarrow> fs \<Rightarrow> event list \<times> fs \<times> exn option" where
  "extraction w filename parent_dir s =
     (let kind = (if ends_with filename ''.zip'' then Zip else TarXz)
      in case open_archive w kind filename of
           Inl e \<Rightarrow> ([], s, Some e)
         | Inr members \<Rightarrow>
             (case extract_members kind parent_dir 0 (length members) members of
                (evs, names, Some e) \<Rightarrow> (evs, s\<lparr>extracted := extracted s @ names\<rparr>, Some e)
              | (evs, names, None) \<Rightarrow>
                  (evs @ [Out (PrintSuccess ''Extraction complete.'')],
                   s\<lparr>extracted := extracted s @ names\<rparr>, None)))"

text \<open>Lines 210 to 268: parent directory, extraction, cleanup, PATH advice.\<close>

definition install_stage :: "world \<Rightarrow> string \<Rightarrow> string \<Rightarrow> string \<Rightarrow> fs \<Rightarrow> run" where
  "install_stage w current_os install_path filename s =
     (let parent_dir = dirname current_os install_path
      in case (if \<not> parent s then
                 (case makedirs_error w of
                    Some e \<Rightarrow> Inl e
                  | None \<Rightarrow> Inr ([Makedirs parent_dir], s\<lparr>parent := True\<rparr>))
               else Inr ([], s)) of
           Inl e \<Rightarrow> crash [Makedirs parent_dir] s e
         | Inr (evs1, s1) \<Rightarrow>
             after evs1
               (case extraction w filename parent_dir s1 of
                  (evs2, s2, Some e) \<Rightarrow>
                    (case cleanup w filename s2 of
                       (evs3, s3) \<Rightarrow>
                         finish (evs2 @ [Out (PrintErrorExn ''Extraction failed: '' e)] @ evs3) s3)
                | (evs2, s2, None) \<Rightarrow>
                    (case cleanup w filename s2 of
                       (evs3, s3) \<Rightarrow>
                         finish (evs2 @ evs3
                                 @ map Out (path_advisor current_os install_path (environ_PATH w)))
                                s3)))"

text \<open>Lines 197 to 208: the old installation directory is removed, if there is one.\<close>

definition remove_stage :: "world \<Rightarrow> string \<Rightarrow> string \<Rightarrow> string \<Rightarrow> fs \<Rightarrow> run" where
  "remove_stage w current_os install_path filename s =
     after [Out (PrintStep (''Extracting to '' @ install_path @ ''...''))]
       (case install s of
          None \<Rightarrow> install_stage w current_os install_path filename s
        | Some n \<Rightarrow>
            after [Out (PrintWarning ''Removing old installation directory...'')]
              (case rmtree (ro_blocks_delete w) current_os install_path n of
                 (evs, Some (e, n')) \<Rightarrow>
                   if is_OSError e then
                     finish (evs @ [Out (PrintErrorExn ''Could not remove old directory: '' e),
                                    Out (Print ''Check if any Flutter files are open or locked.'')])
                            (s\<lparr>install := Some n'\<rparr>)
                   else crash evs (s\<lparr>install := Some n'\<rparr>) e
               | (evs, None) \<Rightarrow>
                   after evs
                     (install_stage w current_os install_path filename (s\<lparr>install := None\<rparr>))))"

text \<open>Lines 185 to 186: the name of the archive in the working directory.\<close>

definition archive_filename :: "(json \<Rightarrow> string) \<Rightarrow> string \<Rightarrow> json \<Rightarrow> string" where
  "archive_filename render current_os latest_version =
     ''flutter_'' @ py_format render latest_version @ ''_archive''
     @ (if current_os = ''Windows'' then ''.zip'' else ''.tar.xz'')"

text \<open>Lines 185 to 194.\<close>

definition download_stage :: "world \<Rightarrow> string \<Rightarrow> string \<Rightarrow> json \<Rightarrow> string \<Rightarrow> fs \<Rightarrow> run" where
  "download_stage w current_os install_path latest_version download_url s =
     (let filename = archive_filename (py_render w) current_os latest_version
      in after [Out (PrintStep ''Downloading Flutter SDK...''), Urlretrieve download_url filename]
           (case urlretrieve (remote w download_url) of
              (created, ls, Some e) \<Rightarrow>
                finish (map Out ls @ [Out (PrintErrorExn ''Download failed: '' e)])
                       (if created then s\<lparr>cwd_files := insert filename (cwd_files s)\<rparr> else s)
            | (created, ls, None) \<Rightarrow>
                after (map Out ls @ [Out (PrintSuccess ''Download finished.'')])
                  (remove_stage w current_os install_path filename
                     (s\<lparr>cwd_files := insert filename (cwd_files s)\<rparr>))))"

text \<open>
  Lines 166 to 182. \<open>if installed_version:\<close> asks for a version that is neither
  \<open>None\<close> nor empty.
\<close>

definition version_gate :: "world \<Rightarrow> string \<Rightarrow> string \<Rightarrow> json \<Rightarrow> string \<Rightarrow> fs \<Rightarrow> run" where
  "version_gate w current_os install_path latest_version download_url s =
     after [RunFlutterVersion]
       (case get_installed_version (flutter_proc w) of
          None \<Rightarrow>
            after [Out (PrintWarning ''Flutter not found in PATH. Proceeding with fresh install...'')]
              (download_stage w current_os install_path latest_version download_url s)
        | Some installed_version \<Rightarrow>
            if installed_version = [] then
              after [Out (PrintWarning ''Flutter not found in PATH. Proceeding with fresh install...'')]
                (download_stage w current_os install_path latest_version download_url s)
            else
              after [Out (Print (''   Local Version:         '' @ installed_version))]
                (if py_eq (JStr installed_version) latest_version then
                   finish [Out (Print ''Great news! You are already on the latest version.''),
                           Out (Print ''Skipping installation to save time.'')] s
                 else
                   after [Out (PrintWarning (''Version mismatch. Upgrading '' @ installed_version
                                  @ '' -> '' @ py_format (py_render w) latest_version @ ''...''))]
                     (download_stage w current_os install_path latest_version download_url s)))"

text \<open>Lines 146 to 158: the metadata URL is looked up and fetched, the release resolved.\<close>

definition fetch_metadata :: "world \<Rightarrow> string \<Rightarrow> event list \<times> (exn + (json \<times> string))" where
  "fetch_metadata w current_os =
     (case METADATA_URLS current_os of
        None \<Rightarrow> ([], Inl (KeyError current_os))
      | Some url \<Rightarrow>
          ([Urlopen url],
           case urlopen_json w url of
             Inl e \<Rightarrow> Inl e
           | Inr data \<Rightarrow> resolve_release (py_render w) data))"

definition banner :: "event list" where
  "banner = [Out (Print rule_line),
             Out (Print ''    FLUTTER ENVIRONMENT SETUP           ''),
             Out (Print rule_line)]"

definition install_flutter :: "world \<Rightarrow> run" where
  "install_flutter w =
     (let current_os = platform_system w
      in after banner
           (case PATHS (expanduser_flutter w) current_os of
              None \<Rightarrow> finish [Out (PrintError (''Unsupported OS: '' @ current_os))] (fs0 w)
            | Some install_path \<Rightarrow>
                after [Out (Print (''Detected System: '' @ current_os)),
                       Out (PrintStep ''Checking for latest stable release...'')]
                  (case fetch_metadata w current_os of
                     (evs, Inl e) \<Rightarrow>
                       finish (evs @ [Out (PrintErrorExn ''Failed to fetch metadata: '' e)]) (fs0 w)
                   | (evs, Inr (latest_version, download_url)) \<Rightarrow>
                       after (evs @ [Out (PrintSuccess (''Latest Stable Version: ''
                                            @ py_format (py_render w) latest_version))])
                         (version_gate w current_os install_path latest_version download_url
                            (fs0 w)))))"

subsection \<open>Notions used in the properties\<close>

text \<open>The events that change the file system.\<close>

fun mutating :: "event \<Rightarrow> bool" where
  "mutating (Urlretrieve url filename) = True"
| "mutating (Unlink path) = True"
| "mutating (Rmdir path) = True"
| "mutating (Chmod path) = True"
| "mutating (Makedirs path) = True"
| "mutating (Extract kind name dest) = True"
| "mutating (Remove path) = True"
| "mutating _ = False"

text \<open>The events that reach the network.\<close>

fun network :: "event \<Rightarrow> bool" where
  "network (Urlopen url) = True"
| "network (Urlretrieve url filename) = True"
| "network _ = False"

text \<open>
  The steps that remove or overwrite what is installed: removal, directory creation,
  extraction and the deletion of the archive.
\<close>

fun destructive :: "event \<Rightarrow> bool" where
  "destructive (Unlink path) = True"
| "destructive (Rmdir path) = True"
| "destructive (Chmod path) = True"
| "destructive (Makedirs path) = True"
| "destructive (Extract kind name dest) = True"
| "destructive (Remove path) = True"
| "destructive _ = False"

text \<open>The percentages of the progress bars among the events of a run, in order.\<close>

fun percents :: "event list \<Rightarrow> rat list" where
  "percents [] = []"
| "percents (Out (ProgressBar prefix bar p suffix) # evs) = p # percents evs"
| "percents (ev # evs) = percents evs"

text \<open>A phase that has reported its completion: the last percentage reported is 100.\<close>

definition ends_at_100 :: "rat list \<Rightarrow> bool" where
  "ends_at_100 ps = (ps \<noteq> [] \<and> last ps = 100)"


text \<open>The events of \<open>shutil.rmtree\<close> and its error handler.\<close>

fun rm_event :: "event \<Rightarrow> bool" where
  "rm_event (Scandir path) = True"
| "rm_event (Unlink path) = True"
| "rm_event (Rmdir path) = True"
| "rm_event (Chmod path) = True"
| "rm_event _ = False"

text \<open>The percentage that \<open>download_reporthook\<close> reports for a block number.\<close>

definition reported :: "int \<Rightarrow> int \<Rightarrow> int \<Rightarrow> rat" where
  "reported block_num block_size total_size =
     (if block_num * block_size < total_size
      then percent (block_num * block_size) total_size
      else percent total_size total_size)"

text \<open>The last four lines of a successful run.\<close>

definition closing :: "line list" where
  "closing = [Print rule_line,
              Print ''   READY TO CODE! '',
              Print ''   Run 'flutter doctor' to verify setup.'',
              Print rule_line]"

subsection \<open>Example environments\<close>

text \<open>
  The reference scenario: the stable hash is \<open>abc123\<close>, the release list
  holds one release of that hash, version 3.38.5; the machine runs Linux, has version
  3.30.0 installed, and the old installation holds a read-only file.
\<close>

definition sample_release :: json where
  "sample_release =
     JDict [(''hash'', JStr ''abc123''), (''version'', JStr ''3.38.5''),
            (''archive'', JStr ''stable/sdk_3.38.5.tar.xz'')]"

definition sample_metadata :: json where
  "sample_metadata =
     JDict [(''current_release'', JDict [(''stable'', JStr ''abc123'')]),
            (''releases'', JList [sample_release])]"

definition plain :: attrs where
  "plain = \<lparr>readonly = False, locked = False\<rparr>"

definition old_install :: node where
  "old_install =
     Dir plain [(''bin'', Dir plain [(''flutter'', File plain)]),
                (''.git'', Dir plain [(''pack'', File \<lparr>readonly = True, locked = False\<rparr>)])]"

definition sample_fs :: fs where
  "sample_fs = \<lparr>install = Some old_install, parent = True, extracted = [], cwd_files = {}\<rparr>"

definition sample_world :: world where
  "sample_world =
     \<lparr>platform_system = ''Linux'',
      expanduser_flutter = ''/home/dev/development/flutter'',
      py_render = (\<lambda>v. ''?''),
      urlopen_json = (\<lambda>url. Inr sample_metadata),
      flutter_proc = Exited 0 ''Flutter 3.30.0 - channel stable'',
      remote = (\<lambda>url. Response 20000 20000 None),
      ro_blocks_delete = True,
      makedirs_error = None,
      open_archive = (\<lambda>kind filename. Inr [(''flutter/'', None), (''flutter/bin/flutter'', None)]),
      remove_error = None,
      environ_PATH = Some ''/usr/bin'',
      fs0 = sample_fs\<rparr>"

text \<open>The same machine with a file of the old installation held open by another process.\<close>

definition locked_install :: node where
  "locked_install =
     Dir plain [(''bin'', Dir plain [(''flutter'', File \<lparr>readonly = False, locked = True\<rparr>)])]"

definition locked_world :: world where
  "locked_world = sample_world\<lparr>fs0 := sample_fs\<lparr>install := Some locked_install\<rparr>\<rparr>"

text \<open>The same machine with the latest version already installed.\<close>

definition latest_world :: world where
  "latest_world = sample_world\<lparr>flutter_proc := Exited 0 ''Flutter 3.38.5 - channel stable''\<rparr>"

text \<open>A machine whose system is none of the three supported ones.\<close>

definition freebsd_world :: world where
  "freebsd_world = sample_world\<lparr>platform_system := ''FreeBSD''\<rparr>"

text \<open>The same machine without any Flutter on its PATH.\<close>

definition fresh_world :: world where
  "fresh_world = sample_world\<lparr>flutter_proc := NotFound\<rparr>"

text \<open>The same machine when the connection to the archive server times out.\<close>

definition offline_world :: world where
  "offline_world = sample_world\<lparr>remote := (\<lambda>url. Refused (OSError ''timed out''))\<rparr>"

text \<open>The same machine when the downloaded archive has no member.\<close>

definition empty_archive_world :: world where
  "empty_archive_world = sample_world\<lparr>open_archive := (\<lambda>kind filename. Inr [])\<rparr>"

text \<open>A metadata document whose stable hash names no release of its list.\<close>

definition orphan_metadata :: json where
  "orphan_metadata =
     JDict [(''current_release'', JDict [(''stable'', JStr ''fff000'')]),
            (''releases'', JList [sample_release])]"

definition orphan_world :: world where
  "orphan_world = sample_world\<lparr>urlopen_json := (\<lambda>url. Inr orphan_metadata)\<rparr>"

text \<open>
  A metadata document with several releases: a beta release comes first, the stable
  release second, and a later entry of the beta channel carries the stable hash too.
\<close>

definition beta_release :: json where
  "beta_release =
     JDict [(''hash'', JStr ''bbb222''), (''channel'', JStr ''beta''),
            (''version'', JStr ''3.39.0-0.1.pre''),
            (''archive'', JStr ''beta/sdk_3.39.0-0.1.pre.tar.xz'')]"

definition promoted_release :: json where
  "promoted_release =
     JDict [(''hash'', JStr ''abc123''), (''channel'', JStr ''beta''),
            (''version'', JStr ''3.38.5-beta''),
            (''archive'', JStr ''beta/sdk_3.38.5.tar.xz'')]"

definition channel_metadata :: json where
  "channel_metadata =
     JDict [(''current_release'', JDict [(''beta'', JStr ''bbb222''), (''stable'', JStr ''abc123'')]),
            (''releases'', JList [beta_release, sample_release, promoted_release])]"

definition channel_world :: world where
  "channel_world = sample_world\<lparr>urlopen_json := (\<lambda>url. Inr channel_metadata)\<rparr>"

text \<open>The installation path on Windows.\<close>

definition win_path :: string where
  "win_path = ''C:'' @ [CHR 0x5C] @ ''flutter''"

section \<open>Properties\<close>

subsection \<open>Runs and their parts\<close>

lemma trace_after [simp]: "trace (after evs r) = evs @ trace r"
  by (simp add: after_def)

lemma final_fs_after [simp]: "final_fs (after evs r) = final_fs r"
  by (simp add: after_def)

lemma uncaught_after [simp]: "uncaught (after evs r) = uncaught r"
  by (simp add: after_def)

lemma finish_sel [simp]:
  "trace (finish evs s) = evs" "final_fs (finish evs s) = s" "uncaught (finish evs s) = None"
  by (simp_all add: finish_def)

lemma crash_sel [simp]:
  "trace (crash evs s e) = evs" "final_fs (crash evs s e) = s" "uncaught (crash evs s e) = Some e"
  by (simp_all add: crash_def)

lemma after_after: "after a (after b r) = after (a @ b) r"
  by (simp add: after_def)

lemma PATHS_None_iff:
  "PATHS h os = None \<longleftrightarrow> os \<notin> {''Windows'', ''Darwin'', ''Linux''}"
  by (simp add: PATHS_def)

lemma PATHS_Some:
  "os \<in> {''Windows'', ''Darwin'', ''Linux''} \<Longrightarrow> \<exists>p. PATHS h os = Some p"
  using PATHS_None_iff [of h os] by auto

lemma METADATA_URLS_Some:
  "os \<in> {''Windows'', ''Darwin'', ''Linux''} \<Longrightarrow> \<exists>url. METADATA_URLS os = Some url"
  by (auto simp: METADATA_URLS_def)

lemma not_destructive_Out: "list_all (\<lambda>ev. \<not> destructive ev) (map Out ls)"
  by (induction ls) simp_all

lemma fetch_metadata_events:
  "fetch_metadata w os = (evs, r) \<Longrightarrow> list_all (\<lambda>ev. \<not> mutating ev) evs"
  by (auto simp: fetch_metadata_def split: option.splits)

lemma fetch_metadata_not_destructive:
  "fetch_metadata w os = (evs, r) \<Longrightarrow> list_all (\<lambda>ev. \<not> destructive ev) evs"
  by (auto simp: fetch_metadata_def split: option.splits)

subsection \<open>The example environments\<close>

lemma sample_fetch:
  "platform_system w = ''Linux'' \<Longrightarrow> urlopen_json w = (\<lambda>url. Inr sample_metadata) \<Longrightarrow>
   fetch_metadata w ''Linux''
     = ([Urlopen ''https://storage.googleapis.com/flutter_infra_release/releases/releases_linux.json''],
        Inr (JStr ''3.38.5'',
             ''https://storage.googleapis.com/flutter_infra_release/releases/stable/sdk_3.38.5.tar.xz''))"
  by (simp add: fetch_metadata_def METADATA_URLS_def resolve_release_def
      sample_metadata_def sample_release_def py_eq_def BASE_URL_def)

lemma sample_world_fetch:
  assumes "platform_system w = ''Linux''" and "urlopen_json w = (\<lambda>url. Inr sample_metadata)"
  shows "fetch_metadata w (platform_system w)
           = ([Urlopen ''https://storage.googleapis.com/flutter_infra_release/releases/releases_linux.json''],
              Inr (JStr ''3.38.5'',
                   ''https://storage.googleapis.com/flutter_infra_release/releases/stable/sdk_3.38.5.tar.xz''))"
  using sample_fetch [OF assms] assms(1) by simp

lemma sample_resolve:
  "resolve_release (\<lambda>v. ''?'') sample_metadata
     = Inr (JStr ''3.38.5'',
            ''https://storage.googleapis.com/flutter_infra_release/releases/stable/sdk_3.38.5.tar.xz'')"
  by (simp add: resolve_release_def sample_metadata_def sample_release_def py_eq_def BASE_URL_def)

lemma orphan_fetch:
  "fetch_metadata orphan_world (platform_system orphan_world)
     = ([Urlopen ''https://storage.googleapis.com/flutter_infra_release/releases/releases_linux.json''],
        Inl (Exception ''Could not match hash to release.''))"
  by (simp add: fetch_metadata_def orphan_world_def sample_world_def METADATA_URLS_def
      resolve_release_def orphan_metadata_def sample_release_def py_eq_def)

lemma probe_3_38_5:
  "get_installed_version (Exited 0 ''Flutter 3.38.5 - channel stable'') = Some ''3.38.5''"
  by (simp add: get_installed_version_def match_here_def digits1_def dot_def is_digit_def
      is_space_def)

lemma probe_3_30_0:
  "get_installed_version (Exited 0 ''Flutter 3.30.0 - channel stable'') = Some ''3.30.0''"
  by (simp add: get_installed_version_def match_here_def digits1_def dot_def is_digit_def
      is_space_def)

lemma no_version_in_output: "re_search ''flutter: not found'' = None"
  by (simp add: match_here_def)

subsection \<open>The platform detector\<close>

text \<open>
  C8. On a system that is none of Windows, Darwin and Linux the run prints the banner
  and the unsupported-OS error and ends: the trace holds no network event and no event
  that changes the file system, and the file system is left as it was found.
\<close>

theorem unsupported_os_halts:
  assumes "platform_system w \<notin> {''Windows'', ''Darwin'', ''Linux''}"
  shows "trace (install_flutter w)
           = banner @ [Out (PrintError (''Unsupported OS: '' @ platform_system w))]
         \<and> list_all (\<lambda>ev. \<not> network ev \<and> \<not> mutating ev) (trace (install_flutter w))
         \<and> final_fs (install_flutter w) = fs0 w
         \<and> uncaught (install_flutter w) = None"
proof -
  from assms have "PATHS (expanduser_flutter w) (platform_system w) = None"
    by (simp add: PATHS_None_iff)
  then show ?thesis
    by (simp add: install_flutter_def banner_def)
qed

theorem unsupported_os_halts_witness:
  "platform_system freebsd_world \<notin> {''Windows'', ''Darwin'', ''Linux''}
   \<and> trace (install_flutter freebsd_world)
       = banner @ [Out (PrintError ''Unsupported OS: FreeBSD'')]
   \<and> final_fs (install_flutter freebsd_world) = sample_fs
   \<and> uncaught (install_flutter freebsd_world) = None"
proof -
  have os: "platform_system freebsd_world \<notin> {''Windows'', ''Darwin'', ''Linux''}"
    by (simp add: freebsd_world_def sample_world_def)
  from unsupported_os_halts [OF os] os show ?thesis
    by (simp add: freebsd_world_def sample_world_def)
qed

subsection \<open>The release resolver\<close>

lemma find_release_Some:
  "find_release items h = Inr (Some r) \<Longrightarrow>
     \<exists>pre post hv. items = pre @ r # post \<and> getitem r ''hash'' = Inr hv \<and> py_eq hv h
        \<and> (\<forall>x \<in> set pre. \<exists>hx. getitem x ''hash'' = Inr hx \<and> \<not> py_eq hx h)"
proof (induction items)
  case Nil
  then show ?case by simp
next
  case (Cons item rest)
  then obtain hx where hx: "getitem item ''hash'' = Inr hx"
    by (cases "getitem item ''hash''") simp_all
  show ?case
  proof (cases "py_eq hx h")
    case True
    with Cons.prems hx have "r = item" by simp
    with hx True show ?thesis
      by (intro exI [of _ "[]"] exI [of _ rest] exI [of _ hx]) simp
  next
    case False
    with Cons.prems hx have "find_release rest h = Inr (Some r)" by simp
    from Cons.IH [OF this] obtain pre post hv
      where "rest = pre @ r # post" "getitem r ''hash'' = Inr hv" "py_eq hv h"
        "\<forall>x \<in> set pre. \<exists>hx. getitem x ''hash'' = Inr hx \<and> \<not> py_eq hx h"
      by blast
    with hx False show ?thesis
      by (intro exI [of _ "item # pre"] exI [of _ post] exI [of _ hv]) simp
  qed
qed

lemma find_release_no_match:
  assumes "\<forall>x \<in> set items. \<forall>hx. getitem x ''hash'' = Inr hx \<longrightarrow> \<not> py_eq hx h"
  shows "find_release items h \<noteq> Inr (Some r)"
proof
  assume "find_release items h = Inr (Some r)"
  from find_release_Some [OF this] assms show False by auto
qed

lemma resolve_release_Inr:
  assumes "resolve_release render data = Inr (version, download_url)"
  shows "\<exists>current_release current_hash releases items pre release post hv archive_path.
           getitem data ''current_release'' = Inr current_release
         \<and> getitem current_release ''stable'' = Inr current_hash
         \<and> getitem data ''releases'' = Inr releases
         \<and> py_iter releases = Inr items
         \<and> items = pre @ release # post
         \<and> getitem release ''hash'' = Inr hv \<and> py_eq hv current_hash
         \<and> (\<forall>x \<in> set pre. \<exists>hx. getitem x ''hash'' = Inr hx \<and> \<not> py_eq hx current_hash)
         \<and> getitem release ''version'' = Inr version
         \<and> getitem release ''archive'' = Inr archive_path
         \<and> download_url = BASE_URL @ ''/'' @ py_format render archive_path"
proof -
  from assms obtain current_release current_hash releases items release archive_path
    where a: "getitem data ''current_release'' = Inr current_release"
      "getitem current_release ''stable'' = Inr current_hash"
      "getitem data ''releases'' = Inr releases"
      "py_iter releases = Inr items"
      "find_release items current_hash = Inr (Some release)"
      "getitem release ''archive'' = Inr archive_path"
      "getitem release ''version'' = Inr version"
      "download_url = BASE_URL @ ''/'' @ py_format render archive_path"
    by (auto simp: resolve_release_def split: sum.splits option.splits if_splits)
  from find_release_Some [OF a(5)] obtain pre post hv
    where b: "items = pre @ release # post" "getitem release ''hash'' = Inr hv" "py_eq hv current_hash"
      "\<forall>x \<in> set pre. \<exists>hx. getitem x ''hash'' = Inr hx \<and> \<not> py_eq hx current_hash"
    by blast
  from a b show ?thesis by blast
qed

lemma resolve_release_no_match:
  assumes "getitem data ''current_release'' = Inr current_release"
    and "getitem current_release ''stable'' = Inr current_hash"
    and "getitem data ''releases'' = Inr (JList items)"
    and "\<forall>x \<in> set items. \<forall>hx. getitem x ''hash'' = Inr hx \<longrightarrow> \<not> py_eq hx current_hash"
  shows "\<exists>e. resolve_release render data = Inl e"
  using assms find_release_no_match [OF assms(4)]
  by (auto simp: resolve_release_def split: sum.splits option.splits)

lemma getitem_truthy: "getitem v key = Inr x \<Longrightarrow> truthy v"
  by (cases v) (auto split: option.splits)

lemma find_release_first:
  assumes "\<forall>x \<in> set pre. \<exists>hx. getitem x ''hash'' = Inr hx \<and> \<not> py_eq hx h"
    and "getitem r ''hash'' = Inr hv" and "py_eq hv h"
  shows "find_release (pre @ r # post) h = Inr (Some r)"
  using assms by (induction pre) auto

lemma find_release_none:
  assumes "\<forall>x \<in> set items. \<exists>hx. getitem x ''hash'' = Inr hx \<and> \<not> py_eq hx h"
  shows "find_release items h = Inr None"
  using assms by (induction items) auto

lemma resolve_release_found:
  assumes "getitem data ''current_release'' = Inr current_release"
    and "getitem current_release ''stable'' = Inr current_hash"
    and "getitem data ''releases'' = Inr (JList (pre @ release # post))"
    and "\<forall>x \<in> set pre. \<exists>hx. getitem x ''hash'' = Inr hx \<and> \<not> py_eq hx current_hash"
    and "getitem release ''hash'' = Inr hv" and "py_eq hv current_hash"
    and "getitem release ''version'' = Inr version"
    and "getitem release ''archive'' = Inr archive_path"
  shows "resolve_release render data
           = Inr (version, BASE_URL @ ''/'' @ py_format render archive_path)"
  using assms find_release_first [OF assms(4,5,6), of post] getitem_truthy [OF assms(5)]
  by (simp add: resolve_release_def)

lemma resolve_release_unmatched:
  assumes "getitem data ''current_release'' = Inr current_release"
    and "getitem current_release ''stable'' = Inr current_hash"
    and "getitem data ''releases'' = Inr (JList items)"
    and "\<forall>x \<in> set items. \<exists>hx. getitem x ''hash'' = Inr hx \<and> \<not> py_eq hx current_hash"
  shows "resolve_release render data = Inl (Exception ''Could not match hash to release.'')"
  using assms find_release_none [OF assms(4)]
  by (simp add: resolve_release_def)

lemma metadata_failure_aborts:
  assumes os: "platform_system w \<in> {''Windows'', ''Darwin'', ''Linux''}"
    and bad: "fetch_metadata w (platform_system w) = (evs, Inl e)"
  shows "trace (install_flutter w)
           = banner
             @ [Out (Print (''Detected System: '' @ platform_system w)),
                Out (PrintStep ''Checking for latest stable release...'')]
             @ evs
             @ [Out (PrintErrorExn ''Failed to fetch metadata: '' e)]
         \<and> list_all (\<lambda>ev. \<not> mutating ev) (trace (install_flutter w))
         \<and> final_fs (install_flutter w) = fs0 w
         \<and> uncaught (install_flutter w) = None"
proof -
  from os obtain install_path
    where p: "PATHS (expanduser_flutter w) (platform_system w) = Some install_path"
    using PATHS_Some by blast
  have quiet: "list_all (\<lambda>ev. \<not> mutating ev) evs"
    using bad by (rule fetch_metadata_events)
  show ?thesis
    using p bad quiet by (simp add: install_flutter_def Let_def banner_def)
qed

text \<open>
  C2. On a supported system the document fetched is the one at the metadata URL of
  that system. A document whose release list holds a release with the stable hash of
  the document, every release before it having a hash that differs, is resolved to the
  version of that release and to the base URL, a slash and its archive path: the list
  is searched in order and the first release of that hash is taken. Conversely, when the
  resolver succeeds its result comes from such a release. When the list holds no
  release of that hash the resolver raises, with the message of line 154 when every
  release has a hash. And whenever fetching, parsing or resolving raises, the run
  prints the metadata error and ends with no event that changes the file system and the
  file system as it was found.
\<close>

theorem release_resolver:
  "(platform_system w \<in> {''Windows'', ''Darwin'', ''Linux''} \<longrightarrow>
      (\<exists>u. METADATA_URLS (platform_system w) = Some u
         \<and> fetch_metadata w (platform_system w)
             = ([Urlopen u],
                case urlopen_json w u of
                  Inl e \<Rightarrow> Inl e
                | Inr data \<Rightarrow> resolve_release (py_render w) data)))
   \<and> (getitem md ''current_release'' = Inr crel
        \<and> getitem crel ''stable'' = Inr stable_hash
        \<and> getitem md ''releases'' = Inr (JList (earlier @ rel # later))
        \<and> (\<forall>x \<in> set earlier. \<exists>hx. getitem x ''hash'' = Inr hx \<and> \<not> py_eq hx stable_hash)
        \<and> getitem rel ''hash'' = Inr rh \<and> py_eq rh stable_hash
        \<and> getitem rel ''version'' = Inr ver
        \<and> getitem rel ''archive'' = Inr arch
      \<longrightarrow> resolve_release rnd md = Inr (ver, BASE_URL @ ''/'' @ py_format rnd arch))
   \<and> (resolve_release render data = Inr (version, download_url) \<longrightarrow>
      (\<exists>current_release current_hash releases items pre release post hv archive_path.
           getitem data ''current_release'' = Inr current_release
         \<and> getitem current_release ''stable'' = Inr current_hash
         \<and> getitem data ''releases'' = Inr releases
         \<and> py_iter releases = Inr items
         \<and> items = pre @ release # post
         \<and> getitem release ''hash'' = Inr hv \<and> py_eq hv current_hash
         \<and> (\<forall>x \<in> set pre. \<exists>hx. getitem x ''hash'' = Inr hx \<and> \<not> py_eq hx current_hash)
         \<and> getitem release ''version'' = Inr version
         \<and> getitem release ''archive'' = Inr archive_path
         \<and> download_url = BASE_URL @ ''/'' @ py_format render archive_path))
   \<and> (getitem doc ''current_release'' = Inr cr
        \<and> getitem cr ''stable'' = Inr sh
        \<and> getitem doc ''releases'' = Inr (JList rs)
        \<and> (\<forall>x \<in> set rs. \<forall>hx. getitem x ''hash'' = Inr hx \<longrightarrow> \<not> py_eq hx sh)
      \<longrightarrow> (\<exists>e. resolve_release render doc = Inl e))
   \<and> (getitem odoc ''current_release'' = Inr ocr
        \<and> getitem ocr ''stable'' = Inr osh
        \<and> getitem odoc ''releases'' = Inr (JList ors)
        \<and> (\<forall>x \<in> set ors. \<exists>hx. getitem x ''hash'' = Inr hx \<and> \<not> py_eq hx osh)
      \<longrightarrow> resolve_release rnd odoc = Inl (Exception ''Could not match hash to release.''))
   \<and> (platform_system w' \<in> {''Windows'', ''Darwin'', ''Linux''}
        \<and> fetch_metadata w' (platform_system w') = (evs, Inl e')
      \<longrightarrow> trace (install_flutter w')
           = banner
             @ [Out (Print (''Detected System: '' @ platform_system w')),
                Out (PrintStep ''Checking for latest stable release...'')]
             @ evs
             @ [Out (PrintErrorExn ''Failed to fetch metadata: '' e')]
         \<and> list_all (\<lambda>ev. \<not> mutating ev) (trace (install_flutter w'))
         \<and> final_fs (install_flutter w') = fs0 w'
         \<and> uncaught (install_flutter w') = None)"
proof -
  have fetch: "platform_system w \<in> {''Windows'', ''Darwin'', ''Linux''} \<longrightarrow>
      (\<exists>u. METADATA_URLS (platform_system w) = Some u
         \<and> fetch_metadata w (platform_system w)
             = ([Urlopen u],
                case urlopen_json w u of
                  Inl e \<Rightarrow> Inl e
                | Inr data \<Rightarrow> resolve_release (py_render w) data))"
    using METADATA_URLS_Some [of "platform_system w"] by (auto simp: fetch_metadata_def)
  show ?thesis
    using fetch
      resolve_release_found [of md crel stable_hash earlier rel later rh ver arch rnd]
      resolve_release_Inr [of render data version download_url]
      resolve_release_no_match [of doc cr sh rs render]
      resolve_release_unmatched [of odoc ocr osh ors rnd]
      metadata_failure_aborts [of w' evs e']
    by blast
qed

theorem release_resolver_witness:
  "platform_system channel_world \<in> {''Windows'', ''Darwin'', ''Linux''}
   \<and> getitem channel_metadata ''releases''
       = Inr (JList ([beta_release] @ sample_release # [promoted_release]))
   \<and> getitem beta_release ''hash'' = Inr (JStr ''bbb222'')
   \<and> \<not> py_eq (JStr ''bbb222'') (JStr ''abc123'')
   \<and> getitem sample_release ''hash'' = Inr (JStr ''abc123'')
   \<and> py_eq (JStr ''abc123'') (JStr ''abc123'')
   \<and> getitem promoted_release ''hash'' = Inr (JStr ''abc123'')
   \<and> resolve_release (\<lambda>v. ''?'') channel_metadata
       = Inr (JStr ''3.38.5'',
              ''https://storage.googleapis.com/flutter_infra_release/releases/stable/sdk_3.38.5.tar.xz'')
   \<and> fetch_metadata channel_world (platform_system channel_world)
       = ([Urlopen ''https://storage.googleapis.com/flutter_infra_release/releases/releases_linux.json''],
          Inr (JStr ''3.38.5'',
               ''https://storage.googleapis.com/flutter_infra_release/releases/stable/sdk_3.38.5.tar.xz''))
   \<and> (\<exists>current_hash release archive_path hv.
         getitem release ''hash'' = Inr hv \<and> py_eq hv current_hash
       \<and> getitem release ''version'' = Inr (JStr ''3.38.5'')
       \<and> getitem release ''archive'' = Inr archive_path
       \<and> ''https://storage.googleapis.com/flutter_infra_release/releases/stable/sdk_3.38.5.tar.xz''
           = BASE_URL @ ''/'' @ py_format (\<lambda>v. ''?'') archive_path)
   \<and> \<not> py_eq (JStr ''abc123'') (JStr ''fff000'')
   \<and> resolve_release (\<lambda>v. ''?'') orphan_metadata
       = Inl (Exception ''Could not match hash to release.'')
   \<and> platform_system orphan_world \<in> {''Windows'', ''Darwin'', ''Linux''}
   \<and> trace (install_flutter orphan_world)
       = banner
         @ [Out (Print ''Detected System: Linux''),
            Out (PrintStep ''Checking for latest stable release...''),
            Urlopen ''https://storage.googleapis.com/flutter_infra_release/releases/releases_linux.json'',
            Out (PrintErrorExn ''Failed to fetch metadata: ''
                   (Exception ''Could not match hash to release.''))]
   \<and> list_all (\<lambda>ev. \<not> mutating ev) (trace (install_flutter orphan_world))
   \<and> final_fs (install_flutter orphan_world) = fs0 orphan_world
   \<and> uncaught (install_flutter orphan_world) = None"
proof -
  let ?url = "''https://storage.googleapis.com/flutter_infra_release/releases/stable/sdk_3.38.5.tar.xz''"
  let ?meta = "''https://storage.googleapis.com/flutter_infra_release/releases/releases_linux.json''"
  let ?crel = "JDict [(''beta'', JStr ''bbb222''), (''stable'', JStr ''abc123'')]"
  note resolver = release_resolver
      [where w = channel_world
         and md = channel_metadata and crel = ?crel and stable_hash = "JStr ''abc123''"
         and earlier = "[beta_release]" and rel = sample_release and later = "[promoted_release]"
         and rh = "JStr ''abc123''" and ver = "JStr ''3.38.5''"
         and arch = "JStr ''stable/sdk_3.38.5.tar.xz''" and rnd = "\<lambda>v. ''?''"
         and render = "\<lambda>v. ''?''" and data = channel_metadata
         and version = "JStr ''3.38.5''" and download_url = ?url
         and doc = orphan_metadata and cr = "JDict [(''stable'', JStr ''fff000'')]"
         and sh = "JStr ''fff000''" and rs = "[sample_release]"
         and odoc = orphan_metadata and ocr = "JDict [(''stable'', JStr ''fff000'')]"
         and osh = "JStr ''fff000''" and ors = "[sample_release]"
         and w' = orphan_world and evs = "[Urlopen ?meta]"
         and e' = "Exception ''Could not match hash to release.''"]
  note p1 = resolver [THEN conjunct1]
  note p2 = resolver [THEN conjunct2, THEN conjunct1]
  note p3 = resolver [THEN conjunct2, THEN conjunct2, THEN conjunct1]
  note p5 = resolver [THEN conjunct2, THEN conjunct2, THEN conjunct2, THEN conjunct2, THEN conjunct1]
  note p6 = resolver [THEN conjunct2, THEN conjunct2, THEN conjunct2, THEN conjunct2, THEN conjunct2]
  have os: "platform_system channel_world \<in> {''Windows'', ''Darwin'', ''Linux''}"
    by (simp add: channel_world_def sample_world_def)
  have sys: "platform_system channel_world = ''Linux''"
    by (simp add: channel_world_def sample_world_def)
  have os': "platform_system orphan_world \<in> {''Windows'', ''Darwin'', ''Linux''}"
    by (simp add: orphan_world_def sample_world_def)
  have sys': "platform_system orphan_world = ''Linux''"
    by (simp add: orphan_world_def sample_world_def)
  have c1: "getitem channel_metadata ''current_release'' = Inr ?crel"
    by (simp add: channel_metadata_def)
  have c2: "getitem ?crel ''stable'' = Inr (JStr ''abc123'')"
    by simp
  have c3: "getitem channel_metadata ''releases''
              = Inr (JList ([beta_release] @ sample_release # [promoted_release]))"
    by (simp add: channel_metadata_def)
  have hb: "getitem beta_release ''hash'' = Inr (JStr ''bbb222'')"
    by (simp add: beta_release_def)
  have nb: "\<not> py_eq (JStr ''bbb222'') (JStr ''abc123'')"
    by (simp add: py_eq_def)
  have c4: "\<forall>x \<in> set [beta_release]. \<exists>hx. getitem x ''hash'' = Inr hx \<and> \<not> py_eq hx (JStr ''abc123'')"
    using hb nb by simp
  have hash: "getitem sample_release ''hash'' = Inr (JStr ''abc123'')"
    by (simp add: sample_release_def)
  have same: "py_eq (JStr ''abc123'') (JStr ''abc123'')"
    by (simp add: py_eq_def)
  have hp: "getitem promoted_release ''hash'' = Inr (JStr ''abc123'')"
    by (simp add: promoted_release_def)
  have c5: "getitem sample_release ''version'' = Inr (JStr ''3.38.5'')"
    by (simp add: sample_release_def)
  have c6: "getitem sample_release ''archive'' = Inr (JStr ''stable/sdk_3.38.5.tar.xz'')"
    by (simp add: sample_release_def)
  from p2 c1 c2 c3 c4 hash same c5 c6
  have "resolve_release (\<lambda>v. ''?'') channel_metadata
          = Inr (JStr ''3.38.5'', BASE_URL @ ''/'' @ py_format (\<lambda>v. ''?'') (JStr ''stable/sdk_3.38.5.tar.xz''))"
    by blast
  then have r1: "resolve_release (\<lambda>v. ''?'') channel_metadata = Inr (JStr ''3.38.5'', ?url)"
    by (simp add: BASE_URL_def)
  from p1 os obtain u
    where u: "METADATA_URLS (platform_system channel_world) = Some u"
      and f: "fetch_metadata channel_world (platform_system channel_world)
             = ([Urlopen u],
                case urlopen_json channel_world u of
                  Inl e \<Rightarrow> Inl e
                | Inr data \<Rightarrow> resolve_release (py_render channel_world) data)"
    by blast
  from u have "u = ?meta"
    by (simp add: sys METADATA_URLS_def)
  with f r1 have r2: "fetch_metadata channel_world (platform_system channel_world)
                        = ([Urlopen ?meta], Inr (JStr ''3.38.5'', ?url))"
    by (simp add: channel_world_def sample_world_def)
  from p3 r1
  have r3: "\<exists>current_hash release archive_path hv.
         getitem release ''hash'' = Inr hv \<and> py_eq hv current_hash
       \<and> getitem release ''version'' = Inr (JStr ''3.38.5'')
       \<and> getitem release ''archive'' = Inr archive_path
       \<and> ?url = BASE_URL @ ''/'' @ py_format (\<lambda>v. ''?'') archive_path"
    by blast
  have differ: "\<not> py_eq (JStr ''abc123'') (JStr ''fff000'')"
    by (simp add: py_eq_def)
  have d1: "getitem orphan_metadata ''current_release'' = Inr (JDict [(''stable'', JStr ''fff000'')])"
    by (simp add: orphan_metadata_def)
  have d2: "getitem (JDict [(''stable'', JStr ''fff000'')]) ''stable'' = Inr (JStr ''fff000'')"
    by simp
  have d3: "getitem orphan_metadata ''releases'' = Inr (JList [sample_release])"
    by (simp add: orphan_metadata_def)
  have d4: "\<forall>x \<in> set [sample_release]. \<exists>hx. getitem x ''hash'' = Inr hx \<and> \<not> py_eq hx (JStr ''fff000'')"
    using hash differ by simp
  from p5 d1 d2 d3 d4
  have r4: "resolve_release (\<lambda>v. ''?'') orphan_metadata = Inl (Exception ''Could not match hash to release.'')"
    by blast
  from p6 os' orphan_fetch
  have r5: "trace (install_flutter orphan_world)
           = banner
             @ [Out (Print (''Detected System: '' @ platform_system orphan_world)),
                Out (PrintStep ''Checking for latest stable release...'')]
             @ [Urlopen ?meta]
             @ [Out (PrintErrorExn ''Failed to fetch metadata: ''
                       (Exception ''Could not match hash to release.''))]
         \<and> list_all (\<lambda>ev. \<not> mutating ev) (trace (install_flutter orphan_world))
         \<and> final_fs (install_flutter orphan_world) = fs0 orphan_world
         \<and> uncaught (install_flutter orphan_world) = None"
    by blast
  then have r5t: "trace (install_flutter orphan_world)
       = banner
         @ [Out (Print ''Detected System: Linux''),
            Out (PrintStep ''Checking for latest stable release...''),
            Urlopen ?meta,
            Out (PrintErrorExn ''Failed to fetch metadata: ''
                   (Exception ''Could not match hash to release.''))]"
    by (simp add: sys')
  from r5 have r5a: "list_all (\<lambda>ev. \<not> mutating ev) (trace (install_flutter orphan_world))"
    and r5b: "final_fs (install_flutter orphan_world) = fs0 orphan_world"
    and r5c: "uncaught (install_flutter orphan_world) = None"
    by blast+
  show ?thesis
    by (intro conjI) (fact os c3 hb nb hash same hp r1 r2 r3 differ r4 os' r5t r5a r5b r5c)+
qed

subsection \<open>The version probe and the decision gate\<close>

lemma digits1_nonempty: "digits1 s = Some (d, r) \<Longrightarrow> d \<noteq> []"
  by (auto simp: digits1_def split: if_splits)

lemma match_here_nonempty: "match_here s = Some v \<Longrightarrow> v \<noteq> []"
  by (auto simp: match_here_def split: option.splits if_splits dest: digits1_nonempty)

lemma re_search_nonempty: "re_search s = Some v \<Longrightarrow> v \<noteq> []"
  by (induction s) (auto split: option.splits dest: match_here_nonempty)

lemma get_installed_version_nonempty: "get_installed_version p = Some v \<Longrightarrow> v \<noteq> []"
  by (auto simp: get_installed_version_def split: sum.splits option.splits exn.splits dest: re_search_nonempty)

lemma get_installed_version_Failed: "get_installed_version (Failed e) = None"
  by (cases e) (simp_all add: get_installed_version_def)

lemma py_eq_JStr: "py_eq (JStr a) b \<longleftrightarrow> b = JStr a"
  by (cases b) (auto simp: py_eq_def)

lemma version_gate_absent:
  assumes "get_installed_version (flutter_proc w) = None"
  shows "version_gate w os install_path latest_version url s
           = after [RunFlutterVersion,
                    Out (PrintWarning ''Flutter not found in PATH. Proceeding with fresh install...'')]
               (download_stage w os install_path latest_version url s)"
  using assms by (simp add: version_gate_def after_def)

lemma version_gate_stale:
  assumes "map_option JStr (get_installed_version (flutter_proc w)) \<noteq> Some latest_version"
  shows "\<exists>pre. version_gate w os install_path latest_version url s
                 = after pre (download_stage w os install_path latest_version url s)
               \<and> list_all (\<lambda>ev. \<not> destructive ev) pre"
proof (cases "get_installed_version (flutter_proc w)")
  case None
  then show ?thesis
    by (intro exI [of _ "[RunFlutterVersion,
          Out (PrintWarning ''Flutter not found in PATH. Proceeding with fresh install...'')]"])
       (simp add: version_gate_def after_after)
next
  case (Some v)
  with assms have ne: "latest_version \<noteq> JStr v" by auto
  from Some have "v \<noteq> []" by (rule get_installed_version_nonempty)
  with Some ne show ?thesis
    by (intro exI [of _ "[RunFlutterVersion,
          Out (Print (''   Local Version:         '' @ v)),
          Out (PrintWarning (''Version mismatch. Upgrading '' @ v @ '' -> ''
                 @ py_format (py_render w) latest_version @ ''...''))]"])
       (simp add: version_gate_def after_after py_eq_JStr)
qed

lemma install_flutter_stale:
  assumes os: "platform_system w \<in> {''Windows'', ''Darwin'', ''Linux''}"
    and latest: "fetch_metadata w (platform_system w) = (evs, Inr (latest_version, url))"
    and stale: "map_option JStr (get_installed_version (flutter_proc w)) \<noteq> Some latest_version"
  shows "\<exists>install_path pre.
           PATHS (expanduser_flutter w) (platform_system w) = Some install_path
         \<and> install_flutter w
             = after pre (download_stage w (platform_system w) install_path latest_version url (fs0 w))
         \<and> list_all (\<lambda>ev. \<not> destructive ev) pre"
proof -
  from os obtain install_path
    where p: "PATHS (expanduser_flutter w) (platform_system w) = Some install_path"
    using PATHS_Some by blast
  from version_gate_stale [OF stale] obtain pre
    where g: "version_gate w (platform_system w) install_path latest_version url (fs0 w)
                = after pre (download_stage w (platform_system w) install_path latest_version url (fs0 w))"
      and q: "list_all (\<lambda>ev. \<not> destructive ev) pre"
    by blast
  have quiet: "list_all (\<lambda>ev. \<not> destructive ev) evs"
    using latest by (rule fetch_metadata_not_destructive)
  let ?pre = "banner
     @ [Out (Print (''Detected System: '' @ platform_system w)),
        Out (PrintStep ''Checking for latest stable release...'')]
     @ evs
     @ [Out (PrintSuccess (''Latest Stable Version: ''
                          @ py_format (py_render w) latest_version))]
     @ pre"
  have "install_flutter w
          = after ?pre (download_stage w (platform_system w) install_path latest_version url (fs0 w))"
    using p latest g by (simp add: install_flutter_def Let_def after_after)
  moreover have "list_all (\<lambda>ev. \<not> destructive ev) ?pre"
    using q quiet by (simp add: banner_def)
  ultimately show ?thesis using p by blast
qed

lemma download_stage_starts:
  "\<exists>filename rest. trace (download_stage w os install_path latest_version url s)
      = [Out (PrintStep ''Downloading Flutter SDK...''), Urlretrieve url filename] @ rest"
  by (auto simp: download_stage_def Let_def split: prod.splits option.splits)

text \<open>
  C1. Whenever the version probe returns a string equal to the resolved latest version,
  the run prints the already-latest message and ends there without an uncaught
  exception: the trace holds the metadata fetch, the probe and console output only,
  so nothing is downloaded, removed or extracted, and the file system is left as it
  was found.
\<close>

theorem already_latest_is_noop:
  assumes os: "platform_system w \<in> {''Windows'', ''Darwin'', ''Linux''}"
    and latest: "fetch_metadata w (platform_system w) = (evs, Inr (JStr v, url))"
    and probe: "get_installed_version (flutter_proc w) = Some v"
  shows "trace (install_flutter w)
           = banner
             @ [Out (Print (''Detected System: '' @ platform_system w)),
                Out (PrintStep ''Checking for latest stable release...'')]
             @ evs
             @ [Out (PrintSuccess (''Latest Stable Version: '' @ v)),
                RunFlutterVersion,
                Out (Print (''   Local Version:         '' @ v)),
                Out (Print ''Great news! You are already on the latest version.''),
                Out (Print ''Skipping installation to save time.'')]
         \<and> list_all (\<lambda>ev. \<not> mutating ev) (trace (install_flutter w))
         \<and> final_fs (install_flutter w) = fs0 w
         \<and> uncaught (install_flutter w) = None"
proof -
  from os obtain install_path
    where p: "PATHS (expanduser_flutter w) (platform_system w) = Some install_path"
    using PATHS_None_iff [of "expanduser_flutter w" "platform_system w"] by auto
  have ne: "v \<noteq> []"
    using probe by (rule get_installed_version_nonempty)
  have quiet: "list_all (\<lambda>ev. \<not> mutating ev) evs"
    using latest by (rule fetch_metadata_events)
  show ?thesis
    using p latest probe ne quiet
    by (simp add: install_flutter_def version_gate_def py_eq_JStr banner_def)
qed

theorem already_latest_is_noop_witness:
  "platform_system latest_world \<in> {''Windows'', ''Darwin'', ''Linux''}
   \<and> get_installed_version (flutter_proc latest_world) = Some ''3.38.5''
   \<and> list_all (\<lambda>ev. \<not> mutating ev) (trace (install_flutter latest_world))
   \<and> final_fs (install_flutter latest_world) = fs0 latest_world
   \<and> uncaught (install_flutter latest_world) = None"
proof -
  have os: "platform_system latest_world \<in> {''Windows'', ''Darwin'', ''Linux''}"
    by (simp add: latest_world_def sample_world_def)
  have latest: "fetch_metadata latest_world (platform_system latest_world)
                  = ([Urlopen ''https://storage.googleapis.com/flutter_infra_release/releases/releases_linux.json''],
                     Inr (JStr ''3.38.5'',
                          ''https://storage.googleapis.com/flutter_infra_release/releases/stable/sdk_3.38.5.tar.xz''))"
    using sample_fetch [of latest_world] by (simp add: latest_world_def sample_world_def)
  have probe: "get_installed_version (flutter_proc latest_world) = Some ''3.38.5''"
    using probe_3_38_5 by (simp add: latest_world_def sample_world_def)
  from already_latest_is_noop [OF os latest probe] os probe show ?thesis
    by blast
qed

text \<open>
  C5. The version probe returns \<open>None\<close> when the executable is not found, when
  the process ends with a return code other than 0, when its output does not match the
  pattern, and on any other exception. And whenever the probe returns \<open>None\<close> on a
  supported system with the release resolved, the run prints the fresh-install warning
  and goes on to the download.
\<close>

theorem probe_failure_is_fresh_install:
  "get_installed_version NotFound = None
   \<and> (rc \<noteq> 0 \<longrightarrow> get_installed_version (Exited rc out) = None)
   \<and> (re_search out = None \<longrightarrow> get_installed_version (Exited 0 out) = None)
   \<and> get_installed_version (Failed e) = None
   \<and> (platform_system w \<in> {''Windows'', ''Darwin'', ''Linux''}
        \<and> fetch_metadata w (platform_system w) = (evs, Inr (latest_version, url))
        \<and> get_installed_version (flutter_proc w) = None
      \<longrightarrow> (\<exists>filename rest.
            trace (install_flutter w)
              = banner
                @ [Out (Print (''Detected System: '' @ platform_system w)),
                   Out (PrintStep ''Checking for latest stable release...'')]
                @ evs
                @ [Out (PrintSuccess (''Latest Stable Version: ''
                          @ py_format (py_render w) latest_version)),
                   RunFlutterVersion,
                   Out (PrintWarning ''Flutter not found in PATH. Proceeding with fresh install...''),
                   Out (PrintStep ''Downloading Flutter SDK...''),
                   Urlretrieve url filename]
                @ rest))"
proof -
  have run: "\<exists>filename rest.
            trace (install_flutter w)
              = banner
                @ [Out (Print (''Detected System: '' @ platform_system w)),
                   Out (PrintStep ''Checking for latest stable release...'')]
                @ evs
                @ [Out (PrintSuccess (''Latest Stable Version: ''
                          @ py_format (py_render w) latest_version)),
                   RunFlutterVersion,
                   Out (PrintWarning ''Flutter not found in PATH. Proceeding with fresh install...''),
                   Out (PrintStep ''Downloading Flutter SDK...''),
                   Urlretrieve url filename]
                @ rest"
    if os: "platform_system w \<in> {''Windows'', ''Darwin'', ''Linux''}"
      and latest: "fetch_metadata w (platform_system w) = (evs, Inr (latest_version, url))"
      and absent: "get_installed_version (flutter_proc w) = None"
  proof -
    from os obtain install_path
      where p: "PATHS (expanduser_flutter w) (platform_system w) = Some install_path"
      using PATHS_Some by blast
    obtain filename rest
      where d: "trace (download_stage w (platform_system w) install_path latest_version url (fs0 w))
                  = [Out (PrintStep ''Downloading Flutter SDK...''), Urlretrieve url filename] @ rest"
      using download_stage_starts by blast
    have "trace (install_flutter w)
              = banner
                @ [Out (Print (''Detected System: '' @ platform_system w)),
                   Out (PrintStep ''Checking for latest stable release...'')]
                @ evs
                @ [Out (PrintSuccess (''Latest Stable Version: ''
                          @ py_format (py_render w) latest_version)),
                   RunFlutterVersion,
                   Out (PrintWarning ''Flutter not found in PATH. Proceeding with fresh install...''),
                   Out (PrintStep ''Downloading Flutter SDK...''),
                   Urlretrieve url filename]
                @ rest"
      using p latest d
      by (simp add: install_flutter_def Let_def version_gate_absent [OF absent])
    then show ?thesis by blast
  qed
  have missing: "get_installed_version NotFound = None"
    by (simp add: get_installed_version_def)
  have nonzero: "rc \<noteq> 0 \<longrightarrow> get_installed_version (Exited rc out) = None"
    by (simp add: get_installed_version_def)
  have nomatch: "re_search out = None \<longrightarrow> get_installed_version (Exited 0 out) = None"
    by (simp add: get_installed_version_def)
  have other: "get_installed_version (Failed e) = None"
    by (rule get_installed_version_Failed)
  show ?thesis
    using missing nonzero nomatch other run by blast
qed

theorem probe_failure_is_fresh_install_witness:
  "(1::int) \<noteq> 0
   \<and> re_search ''flutter: not found'' = None
   \<and> get_installed_version (Exited 1 ''flutter: not found'') = None
   \<and> get_installed_version (Exited 0 ''flutter: not found'') = None
   \<and> get_installed_version (Failed (LibError ''UnicodeDecodeError'')) = None
   \<and> platform_system fresh_world \<in> {''Windows'', ''Darwin'', ''Linux''}
   \<and> get_installed_version (flutter_proc fresh_world) = None
   \<and> (\<exists>filename rest.
         trace (install_flutter fresh_world)
           = banner
             @ [Out (Print (''Detected System: '' @ platform_system fresh_world)),
                Out (PrintStep ''Checking for latest stable release...'')]
             @ [Urlopen ''https://storage.googleapis.com/flutter_infra_release/releases/releases_linux.json'']
             @ [Out (PrintSuccess (''Latest Stable Version: ''
                       @ py_format (py_render fresh_world) (JStr ''3.38.5''))),
                RunFlutterVersion,
                Out (PrintWarning ''Flutter not found in PATH. Proceeding with fresh install...''),
                Out (PrintStep ''Downloading Flutter SDK...''),
                Urlretrieve ''https://storage.googleapis.com/flutter_infra_release/releases/stable/sdk_3.38.5.tar.xz'' filename]
             @ rest)"
proof -
  have os: "platform_system fresh_world \<in> {''Windows'', ''Darwin'', ''Linux''}"
    by (simp add: fresh_world_def sample_world_def)
  have latest: "fetch_metadata fresh_world (platform_system fresh_world)
                  = ([Urlopen ''https://storage.googleapis.com/flutter_infra_release/releases/releases_linux.json''],
                     Inr (JStr ''3.38.5'',
                          ''https://storage.googleapis.com/flutter_infra_release/releases/stable/sdk_3.38.5.tar.xz''))"
    by (rule sample_world_fetch) (simp_all add: fresh_world_def sample_world_def)
  have absent: "get_installed_version (flutter_proc fresh_world) = None"
    by (simp add: fresh_world_def sample_world_def get_installed_version_def)
  have rc: "(1::int) \<noteq> 0" by simp
  from probe_failure_is_fresh_install
         [of 1 "''flutter: not found''" "LibError ''UnicodeDecodeError''" fresh_world
            "[Urlopen ''https://storage.googleapis.com/flutter_infra_release/releases/releases_linux.json'']"
            "JStr ''3.38.5''"
            "''https://storage.googleapis.com/flutter_infra_release/releases/stable/sdk_3.38.5.tar.xz''"]
       rc no_version_in_output os latest absent
  show ?thesis by blast
qed

subsection \<open>The download\<close>

lemma download_stage_fail:
  assumes "urlretrieve (remote w url) = (created, ls, Some e)"
  shows "download_stage w os install_path latest_version url s
           = finish ([Out (PrintStep ''Downloading Flutter SDK...''),
                      Urlretrieve url (archive_filename (py_render w) os latest_version)]
                     @ map Out ls @ [Out (PrintErrorExn ''Download failed: '' e)])
                    (if created
                     then s\<lparr>cwd_files := insert (archive_filename (py_render w) os latest_version) (cwd_files s)\<rparr>
                     else s)"
  using assms by (simp add: download_stage_def Let_def after_def finish_def)

lemma download_stage_ok:
  assumes "urlretrieve (remote w url) = (created, ls, None)"
  shows "download_stage w os install_path latest_version url s
           = after ([Out (PrintStep ''Downloading Flutter SDK...''),
                     Urlretrieve url (archive_filename (py_render w) os latest_version)]
                    @ map Out ls @ [Out (PrintSuccess ''Download finished.'')])
               (remove_stage w os install_path (archive_filename (py_render w) os latest_version)
                  (s\<lparr>cwd_files := insert (archive_filename (py_render w) os latest_version) (cwd_files s)\<rparr>))"
  using assms by (simp add: download_stage_def Let_def after_after)

text \<open>
  C6. Whenever the download is reached and raises, the run ends without an uncaught
  exception, its last event is the download error message, no event of the trace is a
  removal, a directory creation, an extraction or a deletion of the archive, and the
  installation directory is what it was before the run.
\<close>

theorem download_failure_aborts:
  assumes os: "platform_system w \<in> {''Windows'', ''Darwin'', ''Linux''}"
    and latest: "fetch_metadata w (platform_system w) = (evs, Inr (latest_version, url))"
    and stale: "map_option JStr (get_installed_version (flutter_proc w)) \<noteq> Some latest_version"
    and fail: "urlretrieve (remote w url) = (created, ls, Some e)"
  shows "uncaught (install_flutter w) = None
         \<and> last (trace (install_flutter w)) = Out (PrintErrorExn ''Download failed: '' e)
         \<and> list_all (\<lambda>ev. \<not> destructive ev) (trace (install_flutter w))
         \<and> install (final_fs (install_flutter w)) = install (fs0 w)
         \<and> parent (final_fs (install_flutter w)) = parent (fs0 w)
         \<and> extracted (final_fs (install_flutter w)) = extracted (fs0 w)"
proof -
  from install_flutter_stale [OF os latest stale] obtain install_path pre
    where run: "install_flutter w
             = after pre (download_stage w (platform_system w) install_path latest_version url (fs0 w))"
      and quiet: "list_all (\<lambda>ev. \<not> destructive ev) pre"
    by blast
  show ?thesis
    unfolding run download_stage_fail [OF fail]
    using quiet by (simp add: not_destructive_Out)
qed

theorem download_failure_aborts_witness:
  "platform_system offline_world \<in> {''Windows'', ''Darwin'', ''Linux''}
   \<and> map_option JStr (get_installed_version (flutter_proc offline_world)) \<noteq> Some (JStr ''3.38.5'')
   \<and> urlretrieve (remote offline_world ''https://storage.googleapis.com/flutter_infra_release/releases/stable/sdk_3.38.5.tar.xz'')
       = (False, [], Some (OSError ''timed out''))
   \<and> uncaught (install_flutter offline_world) = None
   \<and> last (trace (install_flutter offline_world))
       = Out (PrintErrorExn ''Download failed: '' (OSError ''timed out''))
   \<and> list_all (\<lambda>ev. \<not> destructive ev) (trace (install_flutter offline_world))
   \<and> install (final_fs (install_flutter offline_world)) = Some old_install
   \<and> parent (final_fs (install_flutter offline_world)) = True
   \<and> extracted (final_fs (install_flutter offline_world)) = []"
proof -
  have os: "platform_system offline_world \<in> {''Windows'', ''Darwin'', ''Linux''}"
    by (simp add: offline_world_def sample_world_def)
  have latest: "fetch_metadata offline_world (platform_system offline_world)
                  = ([Urlopen ''https://storage.googleapis.com/flutter_infra_release/releases/releases_linux.json''],
                     Inr (JStr ''3.38.5'',
                          ''https://storage.googleapis.com/flutter_infra_release/releases/stable/sdk_3.38.5.tar.xz''))"
    by (rule sample_world_fetch) (simp_all add: offline_world_def sample_world_def)
  have stale: "map_option JStr (get_installed_version (flutter_proc offline_world))
                 \<noteq> Some (JStr ''3.38.5'')"
    by (simp add: offline_world_def sample_world_def probe_3_30_0)
  have fail: "urlretrieve (remote offline_world ''https://storage.googleapis.com/flutter_infra_release/releases/stable/sdk_3.38.5.tar.xz'')
                = (False, [], Some (OSError ''timed out''))"
    by (simp add: offline_world_def sample_world_def)
  have before: "fs0 offline_world = sample_fs"
    by (simp add: offline_world_def sample_world_def)
  from download_failure_aborts [OF os latest stale fail] os stale fail show ?thesis
    by (simp add: before sample_fs_def)
qed

subsection \<open>The removal of the old installation\<close>

lemma rm_event_call [simp]: "rm_event (call_event func path)"
  by (cases func) simp_all

lemma on_rm_error_result:
  "on_rm_error rb func path a = (evs, r) \<Longrightarrow>
     list_all rm_event evs \<and> (\<forall>e a'. r = Some (e, a') \<longrightarrow> e = OSError path)"
  by (auto simp: on_rm_error_def Let_def split: if_splits)

lemma try_remove_result:
  "try_remove rb func path a = (evs, r) \<Longrightarrow>
     list_all rm_event evs \<and> (\<forall>e a'. r = Some (e, a') \<longrightarrow> is_OSError e)"
  by (auto simp: try_remove_def is_OSError_def split: if_splits prod.splits
      dest!: on_rm_error_result)

lemma rm_result:
  "(\<forall>evs r. rm_node rb os path n = (evs, r) \<longrightarrow>
      list_all rm_event evs \<and> (\<forall>e n'. r = Some (e, n') \<longrightarrow> is_OSError e))"
  "(\<forall>evs r. rm_entries rb os path es = (evs, r) \<longrightarrow>
      list_all rm_event evs \<and> (\<forall>e es'. r = Some (e, es') \<longrightarrow> is_OSError e))"
proof (induction rb os path n and rb os path es rule: rm_node_rm_entries.induct)
  case (1 ro_blocks current_os path a)
  then show ?case
    by (auto split: prod.splits option.splits dest!: try_remove_result)
next
  case (2 ro_blocks current_os path a entries)
  then show ?case
    by (auto split: prod.splits option.splits dest!: try_remove_result)
next
  case (3 ro_blocks current_os path)
  then show ?case by simp
next
  case (4 ro_blocks current_os path name n es)
  then show ?case
    by (auto split: prod.splits option.splits)
qed

lemma rmtree_result:
  assumes "rmtree rb os path n = (evs, r)"
  shows "list_all rm_event evs" and "r = Some (e, n') \<Longrightarrow> is_OSError e"
  using assms rm_result(1) [of rb os path n]
  by (auto simp: rmtree_def split: node.splits prod.splits option.splits dest!: try_remove_result)





lemma remove_stage_fail:
  assumes "install s = Some n" and "rmtree (ro_blocks_delete w) os path n = (evs, Some (e, n'))"
  shows "remove_stage w os path filename s
           = finish ([Out (PrintStep (''Extracting to '' @ path @ ''...'')),
                      Out (PrintWarning ''Removing old installation directory...'')]
                     @ evs
                     @ [Out (PrintErrorExn ''Could not remove old directory: '' e),
                        Out (Print ''Check if any Flutter files are open or locked.'')])
                    (s\<lparr>install := Some n'\<rparr>)"
  using assms rmtree_result(2) [OF assms(2)]
  by (simp add: remove_stage_def after_def finish_def)


lemma rmtree_locked_install:
  "rmtree True ''Linux'' ''/home/dev/development/flutter'' locked_install
     = ([Unlink ''/home/dev/development/flutter/bin/flutter''],
        Some (OSError ''/home/dev/development/flutter/bin/flutter'', locked_install))"
  by (simp add: rmtree_def locked_install_def plain_def try_remove_def on_rm_error_def
      path_join_def posix_join_def starts_with_def ends_with_def)



subsection \<open>Progress reports\<close>

lemma percents_append: "percents (xs @ ys) = percents xs @ percents ys"
  by (induction xs rule: percents.induct) simp_all

lemma draw_progress_bar_percents:
  "draw_progress_bar current tot prefix suffix len = Inr ls \<Longrightarrow>
     percents (map Out ls) = [percent current tot]"
  by (auto simp: draw_progress_bar_def Let_def split: if_splits)

lemma draw_progress_bar_raises:
  "(\<exists>e. draw_progress_bar current tot prefix suffix len = Inl e)
     \<longleftrightarrow> float_overflow tot \<or> float_overflow current \<or> tot = 0"
  by (auto simp: draw_progress_bar_def Let_def)

lemma float_overflow_below:
  "\<not> float_overflow t \<Longrightarrow> 0 \<le> c \<Longrightarrow> c \<le> t \<Longrightarrow> \<not> float_overflow c"
  by (simp add: float_overflow_def)

lemma small_no_overflow: "\<bar>n\<bar> < 2 ^ 64 \<Longrightarrow> \<not> float_overflow n"
proof -
  have "(2::int) ^ 64 \<le> 2 ^ 1024 - 2 ^ 970"
    by simp
  then show "\<bar>n\<bar> < 2 ^ 64 \<Longrightarrow> \<not> float_overflow n"
    unfolding float_overflow_def by linarith
qed

lemma download_reporthook_percents:
  "download_reporthook k b t = Inr ls \<Longrightarrow> percents (map Out ls) = [reported k b t]"
  by (auto simp: download_reporthook_def reported_def Let_def split: if_splits
      dest: draw_progress_bar_percents)

lemma download_reporthook_raises:
  assumes "0 \<le> k * b"
  shows "(\<exists>e. download_reporthook k b t = Inl e) \<longleftrightarrow> t = 0 \<or> float_overflow t"
proof (cases "k * b < t")
  case True
  have "float_overflow (k * b) \<Longrightarrow> float_overflow t"
    using assms True float_overflow_below [of t "k * b"] by auto
  with True show ?thesis
    using draw_progress_bar_raises [of "k * b" t "''Downloading:''" "[]" 30]
    by (auto simp: download_reporthook_def Let_def)
next
  case False
  then show ?thesis
    using draw_progress_bar_raises [of t t "''Downloading:''" "''Complete''" 30]
    by (auto simp: download_reporthook_def Let_def)
qed

lemma run_hooks_percents:
  assumes "t \<noteq> 0" and "\<not> float_overflow t"
  shows "run_hooks ks t = (ls, r) \<Longrightarrow>
     r = None \<and> percents (map Out ls) = map (\<lambda>k. reported (int k) (int bs) t) ks"
proof (induction ks arbitrary: ls r)
  case Nil
  then show ?case by simp
next
  case (Cons k ks)
  have "0 \<le> int k * int bs" by simp
  from download_reporthook_raises [OF this, of t] assms
  obtain l where l: "download_reporthook (int k) (int bs) t = Inr l"
    by (cases "download_reporthook (int k) (int bs) t") auto
  obtain ls' r' where rest: "run_hooks ks t = (ls', r')"
    by fastforce
  from Cons.IH [OF rest] Cons.prems l rest
  show ?case
    by (auto simp: percents_append dest: download_reporthook_percents)
qed

lemma run_hooks_raises:
  assumes "t = 0 \<or> float_overflow t"
  shows "\<exists>e. run_hooks (k # ks) t = ([], Some e)"
proof -
  have "0 \<le> int k * int bs" by simp
  from download_reporthook_raises [OF this, of t] assms
  obtain e where "download_reporthook (int k) (int bs) t = Inl e"
    by blast
  then show ?thesis by simp
qed

lemma percent_self: "t \<noteq> 0 \<Longrightarrow> percent t t = 100"
  by (simp add: percent_def)

lemma percent_mono: "0 < t \<Longrightarrow> a \<le> b \<Longrightarrow> percent a t \<le> percent b t"
  by (simp add: percent_def divide_right_mono)

lemma reported_mono:
  assumes "t \<noteq> 0" "0 \<le> k" "k \<le> k'" "0 \<le> b"
  shows "reported k b t \<le> reported k' b t"
proof (cases "0 < t")
  case True
  have le: "k * b \<le> k' * b"
    using assms by (simp add: mult_right_mono)
  show ?thesis
  proof (cases "k' * b < t")
    case lt: True
    with le have "k * b < t" by simp
    with lt le True show ?thesis
      by (simp add: reported_def percent_mono)
  next
    case False
    then show ?thesis
      using True percent_mono [of t "k * b" t] by (simp add: reported_def)
  qed
next
  case False
  with assms have "t < 0" by simp
  moreover have "0 \<le> k * b" "0 \<le> k' * b"
    using assms by simp_all
  ultimately show ?thesis
    by (simp add: reported_def)
qed

lemma sorted_reported:
  "t \<noteq> 0 \<Longrightarrow> sorted (map (\<lambda>k. reported (int k) (int bs) t) [0..<m])"
  by (simp add: sorted_map sorted_wrt_iff_nth_less reported_mono)

lemma hooks_sorted: "sorted (percents (map Out (fst (run_hooks [0..<m] t))))"
proof (cases "t = 0 \<or> float_overflow t")
  case True
  show ?thesis
  proof (cases "[0..<m]")
    case Nil
    then show ?thesis by simp
  next
    case (Cons k ks)
    with run_hooks_raises [OF True, of k ks] show ?thesis
      by (auto simp del: upt.simps run_hooks.simps(2))
  qed
next
  case False
  then have "t \<noteq> 0" and "\<not> float_overflow t" by simp_all
  from run_hooks_percents [OF this, of "[0..<m]" "fst (run_hooks [0..<m] t)" "snd (run_hooks [0..<m] t)"]
    \<open>t \<noteq> 0\<close>
  show ?thesis
    by (simp add: sorted_reported)
qed

lemma urlretrieve_sorted: "sorted (percents (map Out (fst (snd (urlretrieve d)))))"
proof (cases d)
  case (Refused e)
  then show ?thesis by simp
next
  case (Response t n err)
  obtain ls r where h: "run_hooks [0..<Suc ((n + bs - 1) div bs)] t = (ls, r)"
    by fastforce
  with hooks_sorted [of "Suc ((n + bs - 1) div bs)" t]
  have "sorted (percents (map Out ls))"
    by (simp del: upt.simps)
  with Response h show ?thesis
    by (cases r) (simp_all del: upt.simps)
qed

lemma blocks_cover: "int n \<le> int (((n + bs - 1) div bs)) * int bs"
proof -
  have "n \<le> ((n + bs - 1) div bs) * bs"
    by (simp add: bs_def)
  then show ?thesis
    by (metis of_nat_le_iff of_nat_mult)
qed

lemma urlretrieve_complete:
  assumes "snd (snd (urlretrieve d)) = None"
  shows "ends_at_100 (percents (map Out (fst (snd (urlretrieve d)))))"
proof (cases d)
  case (Refused e)
  with assms show ?thesis by simp
next
  case (Response t n err)
  let ?m = "(n + bs - 1) div bs"
  obtain ls r where h: "run_hooks [0..<Suc ?m] t = (ls, r)"
    by fastforce
  have good: "\<not> (t = 0 \<or> float_overflow t)"
  proof
    assume bad: "t = 0 \<or> float_overflow t"
    have "[0..<Suc ?m] = 0 # [Suc 0..<Suc ?m]"
      by (simp add: upt_rec [of 0] del: upt.simps)
    with run_hooks_raises [OF bad, of 0 "[Suc 0..<Suc ?m]"]
    obtain e where "run_hooks [0..<Suc ?m] t = ([], Some e)"
      by (auto simp del: upt.simps run_hooks.simps(2))
    with assms Response show False by (simp del: upt.simps)
  qed
  then have t0: "t \<noteq> 0" and fin: "\<not> float_overflow t" by simp_all
  from run_hooks_percents [OF t0 fin h]
  have r: "r = None" and ps: "percents (map Out ls) = map (\<lambda>k. reported (int k) (int bs) t) [0..<Suc ?m]"
    by simp_all
  from assms Response h r have size: "\<not> (t \<ge> 0 \<and> int n < t)"
    by (auto split: option.splits if_splits simp del: upt.simps)
  have "reported (int ?m) (int bs) t = 100"
    using size t0 blocks_cover [of n] by (auto simp: reported_def percent_self)
  with ps have "ends_at_100 (percents (map Out ls))"
    by (simp add: ends_at_100_def)
  with Response h r show ?thesis
    by (simp split: option.splits del: upt.simps)
qed

lemma urlretrieve_succeeds:
  assumes "t \<noteq> 0" and "\<not> float_overflow t" and "t < 0 \<or> t \<le> int n"
  shows "\<exists>ls. urlretrieve (Response t n None) = (True, ls, None)"
proof -
  obtain ls r where h: "run_hooks [0..<Suc ((n + bs - 1) div bs)] t = (ls, r)"
    by fastforce
  from run_hooks_percents [OF assms(1,2) h] have "r = None" by simp
  with h assms(3) show ?thesis
    by (auto simp del: upt.simps)
qed

lemma sample_download: "\<exists>ls. urlretrieve (Response 20000 20000 None) = (True, ls, None)"
  by (rule urlretrieve_succeeds) (simp_all add: small_no_overflow)

lemma extract_members_silent:
  "float_overflow (int tot) \<Longrightarrow> percents (fst (extract_members kind dest i tot ms)) = []"
proof (induction ms arbitrary: i)
  case Nil
  show ?case by simp
next
  case (Cons m ms)
  obtain name err where m: "m = (name, err)" by (cases m)
  obtain evs names r where rest: "extract_members kind dest (Suc i) tot ms = (evs, names, r)"
    by (metis prod_cases3)
  from Cons.IH [OF Cons.prems, of "Suc i"] rest have quiet: "percents evs = []" by simp
  from Cons.prems
  obtain e where raises: "draw_progress_bar (int i + 1) (int tot) ''Extracting: '' [] 30 = Inl e"
    using draw_progress_bar_raises [of "int i + 1" "int tot" "''Extracting: ''" "[]" 30] by blast
  show ?case
    using m rest quiet raises by (cases err) (simp_all add: percents_append)
qed

lemma extract_members_sorted:
  assumes "0 < tot" and "\<not> float_overflow (int tot)"
  shows "i + length ms \<le> tot \<Longrightarrow>
         sorted (percents (fst (extract_members kind dest i tot ms)))
         \<and> (\<forall>p \<in> set (percents (fst (extract_members kind dest i tot ms))).
               percent (int i + 1) (int tot) \<le> p)"
proof (induction ms arbitrary: i)
  case Nil
  show ?case by simp
next
  case (Cons m ms)
  obtain name err where m: "m = (name, err)" by (cases m)
  show ?case
  proof (cases err)
    case (Some e)
    with m show ?thesis by simp
  next
    case None
    obtain evs names r where rest: "extract_members kind dest (Suc i) tot ms = (evs, names, r)"
      by (metis prod_cases3)
    from Cons.prems have "Suc i + length ms \<le> tot" by simp
    from Cons.IH [OF this] rest
    have srt: "sorted (percents evs)"
      and lb: "\<forall>p \<in> set (percents evs). percent (int i + 2) (int tot) \<le> p"
      by (simp_all add: add.commute)
    have step: "percent (int i + 1) (int tot) \<le> percent (int i + 2) (int tot)"
      using assms(1) by (intro percent_mono) simp_all
    from lb step have lb': "\<forall>p \<in> set (percents evs). percent (int i + 1) (int tot) \<le> p"
      by (meson order_trans)
    show ?thesis
    proof (cases "i mod 100 = 0 \<or> int i = int tot - 1")
      case True
      have "\<not> float_overflow (int i + 1)"
        using assms(2) Cons.prems float_overflow_below [of "int tot" "int i + 1"] by simp
      with assms
      obtain ls where ls: "draw_progress_bar (int i + 1) (int tot) ''Extracting: '' [] 30 = Inr ls"
        using draw_progress_bar_raises [of "int i + 1" "int tot" "''Extracting: ''" "[]" 30]
        by (cases "draw_progress_bar (int i + 1) (int tot) ''Extracting: '' [] 30") auto
      from draw_progress_bar_percents [OF ls]
      have "percents (fst (extract_members kind dest i tot (m # ms)))
              = percent (int i + 1) (int tot) # percents evs"
        using m None True ls rest by (simp add: percents_append)
      with srt lb' show ?thesis by simp
    next
      case False
      then have "percents (fst (extract_members kind dest i tot (m # ms))) = percents evs"
        using m None rest by simp
      with srt lb' show ?thesis by simp
    qed
  qed
qed

lemma extract_members_complete:
  assumes "ms \<noteq> []" and "i + length ms = tot"
    and "snd (snd (extract_members kind dest i tot ms)) = None"
  shows "ends_at_100 (percents (fst (extract_members kind dest i tot ms)))"
  using assms
proof (induction ms arbitrary: i)
  case Nil
  then show ?case by simp
next
  case (Cons m ms)
  obtain name err where m: "m = (name, err)" by (cases m)
  from Cons.prems(2) have pos: "0 < tot" by simp
  obtain evs names r where rest: "extract_members kind dest (Suc i) tot ms = (evs, names, r)"
    by (metis prod_cases3)
  from Cons.prems(3) m have err: "err = None"
    by (cases err) simp_all
  show ?case
  proof (cases "i mod 100 = 0 \<or> int i = int tot - 1")
    case True
    from Cons.prems(3) m err True
    obtain ls where ls: "draw_progress_bar (int i + 1) (int tot) ''Extracting: '' [] 30 = Inr ls"
      by (cases "draw_progress_bar (int i + 1) (int tot) ''Extracting: '' [] 30") auto
    have ps: "percents (fst (extract_members kind dest i tot (m # ms)))
            = percent (int i + 1) (int tot) # percents evs"
      using draw_progress_bar_percents [OF ls] m err True ls rest by (simp add: percents_append)
    from Cons.prems(3) m err True ls rest have r: "r = None" by simp
    show ?thesis
    proof (cases ms)
      case Nil
      with Cons.prems(2) have "int i + 1 = int tot" by simp
      moreover from Nil rest have "evs = []" by simp
      ultimately show ?thesis
        using ps pos by (simp add: ends_at_100_def percent_self)
    next
      case (Cons a list)
      with Cons.IH [of "Suc i"] Cons.prems(2) rest r
      have "ends_at_100 (percents evs)" by simp
      with ps show ?thesis by (simp add: ends_at_100_def)
    qed
  next
    case False
    then have ms: "ms \<noteq> []"
      using Cons.prems(2) by auto
    have ps: "percents (fst (extract_members kind dest i tot (m # ms))) = percents evs"
      using m err False rest by simp
    from Cons.prems(3) m err False rest have r: "r = None" by simp
    from Cons.IH [of "Suc i"] ms Cons.prems(2) rest r
    have "ends_at_100 (percents evs)" by simp
    with ps show ?thesis by simp
  qed
qed

lemma sample_extract:
  "extract_members TarXz ''/home/dev/development'' 0 2
     [(''flutter/'', None), (''flutter/bin/flutter'', None)]
   = ([Extract TarXz ''flutter/'' ''/home/dev/development'',
       Out (ProgressBar ''Extracting: '' (replicate 15 (CHR ''#'') @ replicate 15 (CHR ''-'')) 50 []),
       Extract TarXz ''flutter/bin/flutter'' ''/home/dev/development'',
       Out (ProgressBar ''Extracting: '' (replicate 30 (CHR ''#'')) 100 []),
       Out Newline],
      [''flutter/'', ''flutter/bin/flutter''], None)"
  by (simp add: draw_progress_bar_def percent_def Let_def small_no_overflow)

text \<open>
  C7, as amended. The percentages reported during a download are non-decreasing, and
  a download that completes has reported 100 last. The percentages reported during an
  extraction are non-decreasing, and an extraction that completes for an archive with
  at least one member has reported 100 last. For an archive without members the loop
  reports nothing. (The percentages are the exact quotients, before rounding.)
\<close>

theorem progress_monotone_and_complete:
  "sorted (percents (map Out (fst (snd (urlretrieve d)))))
   \<and> (snd (snd (urlretrieve d')) = None \<longrightarrow>
        ends_at_100 (percents (map Out (fst (snd (urlretrieve d'))))))
   \<and> sorted (percents (fst (extract_members kind dest 0 (length ms) ms)))
   \<and> (ms' \<noteq> [] \<and> snd (snd (extract_members kind dest 0 (length ms') ms')) = None \<longrightarrow>
        ends_at_100 (percents (fst (extract_members kind dest 0 (length ms') ms'))))
   \<and> extract_members kind dest 0 (length ([] :: (string \<times> exn option) list)) [] = ([], [], None)"
proof -
  have srt: "sorted (percents (fst (extract_members kind dest 0 (length ms) ms)))"
  proof (cases "ms = [] \<or> float_overflow (int (length ms))")
    case True
    then show ?thesis
      using extract_members_silent [of "length ms" kind dest 0 ms] by auto
  next
    case False
    then have "0 < length ms" and "\<not> float_overflow (int (length ms))" by simp_all
    from extract_members_sorted [OF this, of 0 ms] show ?thesis by simp
  qed
  have fin: "ms' \<noteq> [] \<and> snd (snd (extract_members kind dest 0 (length ms') ms')) = None \<longrightarrow>
        ends_at_100 (percents (fst (extract_members kind dest 0 (length ms') ms')))"
    using extract_members_complete [of ms' 0 "length ms'" kind dest] by simp
  show ?thesis
    using urlretrieve_sorted [of d] urlretrieve_complete [of d'] srt fin by simp
qed

theorem progress_monotone_and_complete_witness:
  "snd (snd (urlretrieve (Response 20000 20000 None))) = None
   \<and> sorted (percents (map Out (fst (snd (urlretrieve (Response 20000 20000 None))))))
   \<and> ends_at_100 (percents (map Out (fst (snd (urlretrieve (Response 20000 20000 None))))))
   \<and> [(''flutter/'', None :: exn option), (''flutter/bin/flutter'', None)] \<noteq> []
   \<and> snd (snd (extract_members TarXz ''/home/dev/development'' 0 2
                  [(''flutter/'', None), (''flutter/bin/flutter'', None)])) = None
   \<and> percents (fst (extract_members TarXz ''/home/dev/development'' 0 2
                       [(''flutter/'', None), (''flutter/bin/flutter'', None)])) = [50, 100]
   \<and> ends_at_100 (percents (fst (extract_members TarXz ''/home/dev/development'' 0 2
                       [(''flutter/'', None), (''flutter/bin/flutter'', None)])))"
proof -
  let ?d = "Response 20000 20000 None"
  let ?ms = "[(''flutter/'', None :: exn option), (''flutter/bin/flutter'', None)]"
  have dl: "snd (snd (urlretrieve ?d)) = None"
    using sample_download by auto
  have ne: "?ms \<noteq> []" by simp
  have len: "length ?ms = 2" by simp
  have ex2: "snd (snd (extract_members TarXz ''/home/dev/development'' 0 2 ?ms)) = None"
    by (simp only: sample_extract snd_conv)
  have ex: "snd (snd (extract_members TarXz ''/home/dev/development'' 0 (length ?ms) ?ms)) = None"
    by (simp only: len ex2)
  have ps: "percents (fst (extract_members TarXz ''/home/dev/development'' 0 2 ?ms)) = [50, 100]"
    by (simp only: sample_extract fst_conv percents.simps)
  have fin: "ends_at_100 (percents (fst (extract_members TarXz ''/home/dev/development'' 0 2 ?ms)))"
    using progress_monotone_and_complete [of ?d ?d TarXz "''/home/dev/development''" ?ms ?ms]
      ne ex by (simp only: len) blast
  have dlp: "sorted (percents (map Out (fst (snd (urlretrieve ?d)))))
             \<and> ends_at_100 (percents (map Out (fst (snd (urlretrieve ?d)))))"
    using progress_monotone_and_complete [of ?d ?d TarXz "''/home/dev/development''" ?ms ?ms]
      dl by blast
  show ?thesis
    using dl dlp ne ex2 ps fin by blast
qed

text \<open>
  C7 as stated fails for an archive without members: the extraction completes, and
  no percentage at all has been reported.
\<close>

theorem empty_archive_reports_nothing:
  "snd (snd (extraction empty_archive_world ''flutter_3.38.5_archive.tar.xz''
               ''/home/dev/development'' sample_fs)) = None
   \<and> \<not> ends_at_100 (percents (fst (extraction empty_archive_world
                                       ''flutter_3.38.5_archive.tar.xz''
                                       ''/home/dev/development'' sample_fs)))"
  by (simp add: extraction_def empty_archive_world_def sample_world_def ends_at_100_def)

subsection \<open>The archive after the run\<close>

text \<open>
  Once the extraction block is entered, the \<open>finally\<close> clause tries to delete the
  archive, whether the extraction succeeds or fails.
\<close>

lemma extraction_cwd_files:
  "extraction w filename parent_dir s = (evs, s', r) \<Longrightarrow> cwd_files s' = cwd_files s"
  by (auto simp: extraction_def Let_def split: sum.splits prod.splits option.splits)

lemma install_stage_cleans_up:
  assumes "parent s \<or> makedirs_error w = None" and "filename \<in> cwd_files s"
  shows "Remove filename \<in> set (trace (install_stage w os p filename s))
         \<and> (remove_error w = None \<longrightarrow>
               filename \<notin> cwd_files (final_fs (install_stage w os p filename s)))"
proof -
  let ?s1 = "if parent s then s else s\<lparr>parent := True\<rparr>"
  obtain evs s' r where ex: "extraction w filename (dirname os p) ?s1 = (evs, s', r)"
    by (metis prod_cases3)
  from extraction_cwd_files [OF ex] assms(2) have here: "filename \<in> cwd_files s'"
    by (simp split: if_splits)
  show ?thesis
  proof (cases "parent s")
    case True
    with ex here show ?thesis
      by (cases r; cases "remove_error w")
         (simp_all add: install_stage_def Let_def cleanup_def)
  next
    case False
    with assms(1) have "makedirs_error w = None" by simp
    with False ex here show ?thesis
      by (cases r; cases "remove_error w")
         (simp_all add: install_stage_def Let_def cleanup_def)
  qed
qed

text \<open>
  C3 fails when the old installation cannot be removed. In the example a file of the
  old installation is locked: the download succeeds, \<open>rmtree\<close> raises, the run
  prints the removal error and returns at line 208, before the \<open>try\<close> block whose
  \<open>finally\<close> clause deletes the archive. No deletion of the archive is attempted, and
  the archive is still in the working directory when the run ends.
\<close>

theorem removal_failure_leaves_archive:
  "uncaught (install_flutter locked_world) = None
   \<and> Out (PrintSuccess ''Download finished.'') \<in> set (trace (install_flutter locked_world))
   \<and> last (trace (install_flutter locked_world))
       = Out (Print ''Check if any Flutter files are open or locked.'')
   \<and> Remove ''flutter_3.38.5_archive.tar.xz'' \<notin> set (trace (install_flutter locked_world))
   \<and> ''flutter_3.38.5_archive.tar.xz'' \<in> cwd_files (final_fs (install_flutter locked_world))"
proof -
  let ?w = locked_world
  let ?url = "''https://storage.googleapis.com/flutter_infra_release/releases/stable/sdk_3.38.5.tar.xz''"
  let ?p = "''/home/dev/development/flutter''"
  let ?f = "''flutter_3.38.5_archive.tar.xz''"
  have sys: "platform_system ?w = ''Linux''"
    by (simp add: locked_world_def sample_world_def)
  have os: "platform_system ?w \<in> {''Windows'', ''Darwin'', ''Linux''}"
    by (simp add: sys)
  have latest: "fetch_metadata ?w (platform_system ?w)
                  = ([Urlopen ''https://storage.googleapis.com/flutter_infra_release/releases/releases_linux.json''],
                     Inr (JStr ''3.38.5'', ?url))"
    unfolding sys by (rule sample_fetch) (simp_all add: locked_world_def sample_world_def)
  have stale: "map_option JStr (get_installed_version (flutter_proc ?w)) \<noteq> Some (JStr ''3.38.5'')"
    by (simp add: locked_world_def sample_world_def probe_3_30_0)
  from install_flutter_stale [OF os latest stale] obtain install_path pre
    where p: "PATHS (expanduser_flutter ?w) (platform_system ?w) = Some install_path"
      and run: "install_flutter ?w
             = after pre (download_stage ?w (platform_system ?w) install_path (JStr ''3.38.5'') ?url (fs0 ?w))"
      and quiet: "list_all (\<lambda>ev. \<not> destructive ev) pre"
    by blast
  from p have path: "install_path = ?p"
    by (simp add: locked_world_def sample_world_def PATHS_def)
  obtain ls where dl: "urlretrieve (remote ?w ?url) = (True, ls, None)"
    using sample_download
    by (auto simp: locked_world_def sample_world_def)
  have name: "archive_filename (py_render ?w) ''Linux'' (JStr ''3.38.5'') = ?f"
    by (simp add: archive_filename_def)
  let ?s = "(fs0 ?w)\<lparr>cwd_files := insert ?f (cwd_files (fs0 ?w))\<rparr>"
  have inst: "install ?s = Some locked_install"
    by (simp add: locked_world_def sample_world_def sample_fs_def)
  have rm: "rmtree (ro_blocks_delete ?w) ''Linux'' ?p locked_install
              = ([Unlink ''/home/dev/development/flutter/bin/flutter''],
                 Some (OSError ''/home/dev/development/flutter/bin/flutter'', locked_install))"
    using rmtree_locked_install by (simp add: locked_world_def sample_world_def)
  have whole: "install_flutter ?w
     = after (pre @ [Out (PrintStep ''Downloading Flutter SDK...''), Urlretrieve ?url ?f]
                  @ map Out ls @ [Out (PrintSuccess ''Download finished.'')])
         (finish ([Out (PrintStep (''Extracting to '' @ ?p @ ''...'')),
                   Out (PrintWarning ''Removing old installation directory...'')]
                  @ [Unlink ''/home/dev/development/flutter/bin/flutter'']
                  @ [Out (PrintErrorExn ''Could not remove old directory: ''
                            (OSError ''/home/dev/development/flutter/bin/flutter'')),
                     Out (Print ''Check if any Flutter files are open or locked.'')])
                 (?s\<lparr>install := Some locked_install\<rparr>))"
    unfolding run sys path download_stage_ok [OF dl] name remove_stage_fail [OF inst rm]
    by (simp add: after_after)
  have no_remove: "Remove ?f \<notin> set pre"
    using quiet by (auto simp: list_all_iff)
  show ?thesis
    unfolding whole using no_remove by auto
qed

subsection \<open>The PATH advisor\<close>

lemma strip_prefix_iff: "strip_prefix p s = Some r \<longleftrightarrow> s = p @ r"
  by (induction p s rule: strip_prefix.induct) auto

lemma starts_with_iff: "starts_with s p \<longleftrightarrow> (\<exists>r. s = p @ r)"
  using strip_prefix_iff [of p s] by (auto simp: starts_with_def)

lemma contains_iff: "contains needle hay \<longleftrightarrow> (\<exists>pre post. hay = pre @ needle @ post)"
proof (induction hay)
  case Nil
  show ?case by auto
next
  case (Cons c cs)
  show ?case
  proof
    assume "contains needle (c # cs)"
    then consider "starts_with (c # cs) needle" | "contains needle cs" by auto
    then show "\<exists>pre post. c # cs = pre @ needle @ post"
    proof cases
      case 1
      then obtain r where "c # cs = needle @ r" by (auto simp: starts_with_iff)
      then have "c # cs = [] @ needle @ r" by simp
      then show ?thesis by blast
    next
      case 2
      with Cons.IH obtain pre post where "cs = pre @ needle @ post" by blast
      then have "c # cs = (c # pre) @ needle @ post" by simp
      then show ?thesis by blast
    qed
  next
    assume "\<exists>pre post. c # cs = pre @ needle @ post"
    then obtain pre post where eq: "c # cs = pre @ needle @ post" by blast
    show "contains needle (c # cs)"
    proof (cases pre)
      case Nil
      with eq have "starts_with (c # cs) needle" by (auto simp: starts_with_iff)
      then show ?thesis by simp
    next
      case (Cons a pre')
      with eq have "cs = pre' @ needle @ post" by simp
      with Cons.IH have "contains needle cs" by blast
      then show ?thesis by simp
    qed
  qed
qed

lemma path_advisor_windows_present:
  assumes "\<exists>pre post. lower (case env of None \<Rightarrow> [] | Some v \<Rightarrow> v)
                          = pre @ lower (nt_join p ''bin'') @ post"
  shows "path_advisor ''Windows'' p env
           = [PrintStep ''Final Configuration'', PrintSuccess ''Flutter is already in your PATH.'']
             @ closing"
  using assms by (simp add: path_advisor_def Let_def path_join_def contains_iff closing_def)

lemma path_advisor_windows_missing:
  assumes "\<not> (\<exists>pre post. lower (case env of None \<Rightarrow> [] | Some v \<Rightarrow> v)
                          = pre @ lower (nt_join p ''bin'') @ post)"
  shows "path_advisor ''Windows'' p env
           = [PrintStep ''Final Configuration'',
              PrintWarning ''Action Required: Update your PATH.'',
              Print ''Run this in PowerShell (Admin) to finish:'',
              Print (''  [Environment]::SetEnvironmentVariable('Path', $env:Path + ';''
                     @ nt_join p ''bin'' @ ''', 'User')'')]
             @ closing"
  using assms by (simp add: path_advisor_def Let_def path_join_def contains_iff closing_def)

lemma path_advisor_other:
  assumes "os \<noteq> ''Windows''"
  shows "path_advisor os p env
           = [PrintStep ''Final Configuration'',
              PrintSuccess ''Installation done.'',
              Print (''Add this to your .zshrc/.bashrc: export PATH='' @ [CHR 0x22] @ ''$PATH:''
                     @ posix_join p ''bin'' @ [CHR 0x22])]
             @ closing"
  using assms by (simp add: path_advisor_def Let_def path_join_def closing_def)

lemma path_advisor_reminder:
  "Print ''   Run 'flutter doctor' to verify setup.'' \<in> set (path_advisor os p env)"
  by (simp add: path_advisor_def Let_def)

lemma install_stage_advice:
  assumes "parent s \<or> makedirs_error w = None"
    and "extraction w filename (dirname os p) (s\<lparr>parent := True\<rparr>) = (evs, s', None)"
  shows "uncaught (install_stage w os p filename s) = None
         \<and> (\<exists>pre. trace (install_stage w os p filename s)
                     = pre @ map Out (path_advisor os p (environ_PATH w)))"
proof (cases "parent s")
  case True
  then have "s\<lparr>parent := True\<rparr> = s" by simp
  with assms(2) have ex: "extraction w filename (dirname os p) s = (evs, s', None)" by simp
  obtain evs3 s3 where c: "cleanup w filename s' = (evs3, s3)" by fastforce
  have "install_stage w os p filename s
          = finish (evs @ evs3 @ map Out (path_advisor os p (environ_PATH w))) s3"
    using True ex c by (simp add: install_stage_def Let_def after_def finish_def)
  then show ?thesis
    by (simp only: finish_sel) (metis append.assoc)
next
  case False
  with assms(1) have mk: "makedirs_error w = None" by simp
  obtain evs3 s3 where c: "cleanup w filename s' = (evs3, s3)" by fastforce
  have "install_stage w os p filename s
          = finish ([Makedirs (dirname os p)] @ evs @ evs3
                    @ map Out (path_advisor os p (environ_PATH w))) s3"
    using False mk assms(2) c by (simp add: install_stage_def Let_def after_def finish_def)
  then show ?thesis
    by (simp only: finish_sel) (metis append.assoc)
qed

lemma win_bin_lower:
  "lower (nt_join win_path ''bin'') = ''c:'' @ [CHR 0x5C] @ ''flutter'' @ [CHR 0x5C] @ ''bin''"
  by code_simp

lemma path_present:
  "lower (''C:/Tools;c:'' @ [CHR 0x5C] @ ''FLUTTER'' @ [CHR 0x5C] @ ''BIN'')
     = ''c:/tools;'' @ lower (nt_join win_path ''bin'') @ []"
  by code_simp

lemma path_missing:
  "\<not> contains (lower (nt_join win_path ''bin'')) (lower ''C:/Windows'')"
  by code_simp

lemma sample_dirname: "dirname ''Linux'' ''/home/dev/development/flutter'' = ''/home/dev/development''"
  by code_simp

lemma sample_kind: "ends_with ''flutter_3.38.5_archive.tar.xz'' ''.zip'' = False"
  by code_simp

lemma sample_extraction:
  "snd (snd (extraction sample_world ''flutter_3.38.5_archive.tar.xz''
               (dirname ''Linux'' ''/home/dev/development/flutter'') s)) = None"
  by (simp add: extraction_def sample_dirname sample_kind sample_world_def
      draw_progress_bar_def Let_def small_no_overflow)

text \<open>
  C9. On Windows the advisor reports that Flutter is already in the PATH exactly when
  the lower-cased \<open>bin\<close> directory of the installation is a substring of the
  lower-cased PATH of the process, and prints the command that persists it otherwise.
  On any other system it prints the export line whatever the PATH is. Its output always
  holds the reminder to run \<open>flutter doctor\<close>. The advisor is a total function that
  only yields lines to print, and a run whose extraction has succeeded ends with these
  lines and without an uncaught exception.
\<close>

theorem path_advisor_guidance:
  "((\<exists>pre post. lower (case env of None \<Rightarrow> [] | Some v \<Rightarrow> v)
                   = pre @ lower (nt_join p ''bin'') @ post)
      \<longrightarrow> path_advisor ''Windows'' p env
            = [PrintStep ''Final Configuration'',
               PrintSuccess ''Flutter is already in your PATH.'']
              @ closing)
   \<and> (\<not> (\<exists>pre post. lower (case env' of None \<Rightarrow> [] | Some v \<Rightarrow> v)
                   = pre @ lower (nt_join p ''bin'') @ post)
      \<longrightarrow> path_advisor ''Windows'' p env'
            = [PrintStep ''Final Configuration'',
               PrintWarning ''Action Required: Update your PATH.'',
               Print ''Run this in PowerShell (Admin) to finish:'',
               Print (''  [Environment]::SetEnvironmentVariable('Path', $env:Path + ';''
                      @ nt_join p ''bin'' @ ''', 'User')'')]
              @ closing)
   \<and> (os \<noteq> ''Windows''
      \<longrightarrow> path_advisor os q env''
            = [PrintStep ''Final Configuration'',
               PrintSuccess ''Installation done.'',
               Print (''Add this to your .zshrc/.bashrc: export PATH='' @ [CHR 0x22] @ ''$PATH:''
                      @ posix_join q ''bin'' @ [CHR 0x22])]
              @ closing)
   \<and> Print ''   Run 'flutter doctor' to verify setup.'' \<in> set (path_advisor os' q' renv)
   \<and> ((parent s \<or> makedirs_error w = None)
        \<and> extraction w filename (dirname ros rp) (s\<lparr>parent := True\<rparr>) = (evs, s', None)
      \<longrightarrow> uncaught (install_stage w ros rp filename s) = None
          \<and> (\<exists>pre. trace (install_stage w ros rp filename s)
                      = pre @ map Out (path_advisor ros rp (environ_PATH w))))"
  using path_advisor_windows_present [of env p] path_advisor_windows_missing [of env' p]
    path_advisor_other [of os q env''] path_advisor_reminder [of os' q' renv]
    install_stage_advice [of s w filename ros rp evs s']
  by blast

theorem path_advisor_guidance_witness:
  "(\<exists>pre post. lower (''C:/Tools;c:'' @ [CHR 0x5C] @ ''FLUTTER'' @ [CHR 0x5C] @ ''BIN'')
                  = pre @ lower (nt_join win_path ''bin'') @ post)
   \<and> path_advisor ''Windows'' win_path
        (Some (''C:/Tools;c:'' @ [CHR 0x5C] @ ''FLUTTER'' @ [CHR 0x5C] @ ''BIN''))
       = [PrintStep ''Final Configuration'', PrintSuccess ''Flutter is already in your PATH.'']
         @ closing
   \<and> \<not> (\<exists>pre post. lower ''C:/Windows'' = pre @ lower (nt_join win_path ''bin'') @ post)
   \<and> path_advisor ''Windows'' win_path (Some ''C:/Windows'')
       = [PrintStep ''Final Configuration'',
          PrintWarning ''Action Required: Update your PATH.'',
          Print ''Run this in PowerShell (Admin) to finish:'',
          Print (''  [Environment]::SetEnvironmentVariable('Path', $env:Path + ';''
                 @ nt_join win_path ''bin'' @ ''', 'User')'')]
         @ closing
   \<and> ''Linux'' \<noteq> ''Windows''
   \<and> path_advisor ''Linux'' ''/home/dev/development/flutter'' None
       = [PrintStep ''Final Configuration'',
          PrintSuccess ''Installation done.'',
          Print (''Add this to your .zshrc/.bashrc: export PATH='' @ [CHR 0x22] @ ''$PATH:''
                 @ posix_join ''/home/dev/development/flutter'' ''bin'' @ [CHR 0x22])]
         @ closing
   \<and> Print ''   Run 'flutter doctor' to verify setup.''
       \<in> set (path_advisor ''Darwin'' ''/Users/dev/development/flutter'' None)
   \<and> parent sample_fs
   \<and> uncaught (install_stage sample_world ''Linux'' ''/home/dev/development/flutter''
                  ''flutter_3.38.5_archive.tar.xz'' sample_fs) = None
   \<and> (\<exists>pre. trace (install_stage sample_world ''Linux'' ''/home/dev/development/flutter''
                       ''flutter_3.38.5_archive.tar.xz'' sample_fs)
               = pre @ map Out (path_advisor ''Linux'' ''/home/dev/development/flutter''
                                  (environ_PATH sample_world)))"
proof -
  let ?present = "Some (''C:/Tools;c:'' @ [CHR 0x5C] @ ''FLUTTER'' @ [CHR 0x5C] @ ''BIN'')"
  let ?q = "''/home/dev/development/flutter''"
  let ?f = "''flutter_3.38.5_archive.tar.xz''"
  obtain evs s' r
    where ex: "extraction sample_world ?f (dirname ''Linux'' ?q) (sample_fs\<lparr>parent := True\<rparr>)
                 = (evs, s', r)"
    by (metis prod_cases3)
  with sample_extraction [of "sample_fs\<lparr>parent := True\<rparr>"] have r: "r = None" by simp
  note guidance = path_advisor_guidance
      [where env = ?present and p = win_path and env' = "Some ''C:/Windows''"
         and os = "''Linux''" and q = ?q and env'' = None
         and os' = "''Darwin''" and q' = "''/Users/dev/development/flutter''" and renv = None
         and s = sample_fs and w = sample_world and filename = ?f
         and ros = "''Linux''" and rp = ?q and evs = evs and s' = s']
  have present: "\<exists>pre post. lower (''C:/Tools;c:'' @ [CHR 0x5C] @ ''FLUTTER'' @ [CHR 0x5C] @ ''BIN'')
                  = pre @ lower (nt_join win_path ''bin'') @ post"
    using path_present by blast
  have missing: "\<not> (\<exists>pre post. lower ''C:/Windows'' = pre @ lower (nt_join win_path ''bin'') @ post)"
    using path_missing by (simp add: contains_iff)
  have other: "''Linux'' \<noteq> ''Windows''" by simp
  have par: "parent sample_fs" by (simp add: sample_fs_def)
  from guidance present have g1: "path_advisor ''Windows'' win_path ?present
       = [PrintStep ''Final Configuration'', PrintSuccess ''Flutter is already in your PATH.'']
         @ closing"
    by simp
  from guidance missing have g2: "path_advisor ''Windows'' win_path (Some ''C:/Windows'')
       = [PrintStep ''Final Configuration'',
          PrintWarning ''Action Required: Update your PATH.'',
          Print ''Run this in PowerShell (Admin) to finish:'',
          Print (''  [Environment]::SetEnvironmentVariable('Path', $env:Path + ';''
                 @ nt_join win_path ''bin'' @ ''', 'User')'')]
         @ closing"
    by simp
  from guidance other have g3: "path_advisor ''Linux'' ?q None
       = [PrintStep ''Final Configuration'',
          PrintSuccess ''Installation done.'',
          Print (''Add this to your .zshrc/.bashrc: export PATH='' @ [CHR 0x22] @ ''$PATH:''
                 @ posix_join ?q ''bin'' @ [CHR 0x22])]
         @ closing"
    by blast
  from guidance have g4: "Print ''   Run 'flutter doctor' to verify setup.''
       \<in> set (path_advisor ''Darwin'' ''/Users/dev/development/flutter'' None)"
    by blast
  from guidance par ex r
  have g5: "uncaught (install_stage sample_world ''Linux'' ?q ?f sample_fs) = None
            \<and> (\<exists>pre. trace (install_stage sample_world ''Linux'' ?q ?f sample_fs)
                 = pre @ map Out (path_advisor ''Linux'' ?q (environ_PATH sample_world)))"
    by blast
  show ?thesis
    using present g1 missing g2 other g3 g4 par g5 by blast
qed

end
